theory Spec2Isabelle
  imports Main "HOL-Library.Word" "HOL-Library.Sublist"
begin

chapter \<open>gllm: structured generation and tool orchestration\<close>

text \<open>
  A shallow embedding of the Go package \<^verbatim>\<open>gllm\<close>. The functions are taken from the
  revision of the package that has the batch engine (\<^verbatim>\<open>ModelCallStructured\<close> with a
  context argument, \<^verbatim>\<open>extractJSONAndComment\<close>, \<^verbatim>\<open>GetModelCallBatchResults\<close>). In that
  revision the tools and their dispatch have moved to the gollama package; the registry
  of the client, the merged tool list and \<^verbatim>\<open>HandleToolCall\<close> are taken from the
  revision in \<^verbatim>\<open>gllm.go\<close> that still has them. Calls that leave the package (the
  gateway, the tool handler, the JSON decoder, the template engine) are parameters.
\<close>

section \<open>The string helpers of Go's \<^verbatim>\<open>strings\<close> package used by gllm\<close>

text \<open>
  A Go string is a sequence of bytes, here a \<^typ>\<open>string\<close> (a list of 8-bit characters).
  The functions below are the ones \<^verbatim>\<open>cleanJsonOutput\<close> and
  \<^verbatim>\<open>extractJSONAndComment\<close> call.
\<close>

definition nl :: char where
  "nl = CHR 0x0A"

definition HasPrefix :: "string \<Rightarrow> string \<Rightarrow> bool" where
  "HasPrefix s p = (take (length p) s = p)"

definition HasSuffix :: "string \<Rightarrow> string \<Rightarrow> bool" where
  "HasSuffix s p = (length p \<le> length s \<and> drop (length s - length p) s = p)"

definition TrimPrefix :: "string \<Rightarrow> string \<Rightarrow> string" where
  "TrimPrefix s p = (if HasPrefix s p then drop (length p) s else s)"

definition TrimSuffix :: "string \<Rightarrow> string \<Rightarrow> string" where
  "TrimSuffix s p = (if HasSuffix s p then take (length s - length p) s else s)"

text \<open>
  \<^verbatim>\<open>strings.TrimSpace\<close> removes leading and trailing white space as Unicode defines
  it. The list holds the UTF-8 encodings of the code points for which
  \<^verbatim>\<open>unicode.IsSpace\<close> holds: tab, line feed, vertical tab, form feed, carriage return,
  space, U+0085, U+00A0, U+1680, U+2000 to U+200A, U+2028, U+2029, U+202F, U+205F, U+3000.
\<close>

definition space_runes :: "string list" where
  "space_runes =
     [[CHR 0x09], [CHR 0x0A], [CHR 0x0B], [CHR 0x0C], [CHR 0x0D], [CHR 0x20],
      [CHR 0xC2, CHR 0x85], [CHR 0xC2, CHR 0xA0],
      [CHR 0xE1, CHR 0x9A, CHR 0x80],
      [CHR 0xE2, CHR 0x80, CHR 0x80], [CHR 0xE2, CHR 0x80, CHR 0x81],
      [CHR 0xE2, CHR 0x80, CHR 0x82], [CHR 0xE2, CHR 0x80, CHR 0x83],
      [CHR 0xE2, CHR 0x80, CHR 0x84], [CHR 0xE2, CHR 0x80, CHR 0x85],
      [CHR 0xE2, CHR 0x80, CHR 0x86], [CHR 0xE2, CHR 0x80, CHR 0x87],
      [CHR 0xE2, CHR 0x80, CHR 0x88], [CHR 0xE2, CHR 0x80, CHR 0x89],
      [CHR 0xE2, CHR 0x80, CHR 0x8A],
      [CHR 0xE2, CHR 0x80, CHR 0xA8], [CHR 0xE2, CHR 0x80, CHR 0xA9],
      [CHR 0xE2, CHR 0x80, CHR 0xAF], [CHR 0xE2, CHR 0x81, CHR 0x9F],
      [CHR 0xE3, CHR 0x80, CHR 0x80]]"

fun leading_space :: "string list \<Rightarrow> string \<Rightarrow> nat" where
  "leading_space [] s = 0"
| "leading_space (r # rs) s = (if HasPrefix s r then length r else leading_space rs s)"

function TrimLeft :: "string \<Rightarrow> string" where
  "TrimLeft s =
     (let k = leading_space space_runes s
      in if k = 0 \<or> length s < k then s else TrimLeft (drop k s))"
  by pat_completeness auto
termination
  by (relation "measure length") auto

fun trailing_space :: "string list \<Rightarrow> string \<Rightarrow> nat" where
  "trailing_space [] s = 0"
| "trailing_space (r # rs) s = (if HasSuffix s r then length r else trailing_space rs s)"

function TrimRight :: "string \<Rightarrow> string" where
  "TrimRight s =
     (let k = trailing_space space_runes s
      in if k = 0 \<or> length s < k then s else TrimRight (take (length s - k) s))"
  by pat_completeness auto
termination
  by (relation "measure length") auto

definition TrimSpace :: "string \<Rightarrow> string" where
  "TrimSpace s = TrimRight (TrimLeft s)"

text \<open>\<^verbatim>\<open>strings.Split(s, "\n")\<close>: the pieces between line feeds; never empty.\<close>

fun Split_nl :: "string \<Rightarrow> string list" where
  "Split_nl [] = [[]]"
| "Split_nl (c # cs) =
     (if c = nl then [] # Split_nl cs
      else (case Split_nl cs of [] \<Rightarrow> [[c]] | l # ls \<Rightarrow> (c # l) # ls))"

text \<open>\<^verbatim>\<open>strings.Join(lines, "\n")\<close>.\<close>

fun Join_nl :: "string list \<Rightarrow> string" where
  "Join_nl [] = []"
| "Join_nl [l] = l"
| "Join_nl (l # m # ls) = l @ nl # Join_nl (m # ls)"

section \<open>Response extraction\<close>

text \<open>
  \<^verbatim>\<open>
  func cleanJsonOutput(s string) string {
      output := strings.TrimSpace(s)
      output = strings.TrimPrefix(output, "```json")
      output = strings.TrimSuffix(output, "```")
      output = strings.TrimSpace(output)
      return output
  }
  \<close>
\<close>

definition cleanJsonOutput :: "string \<Rightarrow> string" where
  "cleanJsonOutput s =
     TrimSpace (TrimSuffix (TrimPrefix (TrimSpace s) ''```json'') ''```'')"

text \<open>
  The loop of \<^verbatim>\<open>extractJSONAndComment\<close> over the lines: \<open>pre\<close> is
  \<^verbatim>\<open>lines[:i]\<close>, the second list is \<^verbatim>\<open>lines[i:]\<close>. \<open>None\<close> is the loop
  running to its end without a return.
\<close>

fun scan_lines :: "string list \<Rightarrow> string list \<Rightarrow> (string \<times> string) option" where
  "scan_lines pre [] = None"
| "scan_lines pre (l # ls) =
     (if HasPrefix l ''{'' then Some (TrimSpace (Join_nl pre), Join_nl (l # ls))
      else scan_lines (pre @ [l]) ls)"

definition extractJSONAndComment :: "string \<Rightarrow> string \<times> string" where
  "extractJSONAndComment output =
     (if HasPrefix output ''{'' then ('''', output)
      else (case scan_lines [] (Split_nl output) of
              Some r \<Rightarrow> r
            | None \<Rightarrow> (output, '''')))"

section \<open>The data model\<close>

text \<open>
  Go's \<^verbatim>\<open>int\<close> is a 64-bit two's complement integer on the platforms the library
  runs on: arithmetic wraps, comparisons are signed (\<open>\<le>s\<close>, \<open><s\<close>).
\<close>

type_synonym goint = "64 word"

text \<open>
  The types of the gollama package, as far as gllm reads and writes their fields:
  \<^verbatim>\<open>ToolCall{ID, Function{Name, Arguments}}\<close>,
  \<^verbatim>\<open>Message{Role, Content, Images, ToolCalls, ToolCallID}\<close>,
  \<^verbatim>\<open>RequestOptions{Model, System, Think, Messages, Tools, ToolChoice}\<close>.
\<close>

record ToolCall =
  tc_ID :: string
  fn_Name :: string
  fn_Arguments :: string

record Message =
  Role :: string
  Content :: string
  m_Images :: "string list"
  ToolCalls :: "ToolCall list"
  ToolCallID :: string

text \<open>
  \<^verbatim>\<open>type ToolParams struct { Type string; Properties map[string]any; Required []string }\<close>;
  a property's value is kept as its text.
\<close>

record ToolParams =
  p_Type :: string
  Properties :: "(string \<times> string) list"
  Required :: "string list"

text \<open>A decoded argument object (\<^verbatim>\<open>map[string]any\<close>): keys with their values as text.\<close>

type_synonym argmap = "(string \<times> string) list"

text \<open>
  \<^verbatim>\<open>type Tool struct { Name, Description string; Params ToolParams;
  Func func(map[string]any) (string, error) }\<close>. A returned error is \<open>Inl\<close> of its text.
\<close>

record Tool =
  t_Name :: string
  Description :: string
  Params :: ToolParams
  Func :: "argmap \<Rightarrow> string + string"

text \<open>
  The declaration of a tool sent to the gateway (\<^verbatim>\<open>gollama.ToolParam\<close>), built by
  \<^verbatim>\<open>GollamaToolDef\<close>; where the tools are gollama's, by their \<^verbatim>\<open>ApiDef\<close>.
\<close>

record ToolParam =
  d_Type :: string
  d_Name :: string
  d_Description :: string
  d_Parameters :: ToolParams

definition GollamaToolDef :: "Tool \<Rightarrow> ToolParam" where
  "GollamaToolDef t =
     \<lparr>d_Type = ''function'', d_Name = t_Name t, d_Description = Description t,
      d_Parameters = Params t\<rparr>"

record RequestOptions =
  o_Model :: string
  o_System :: string
  o_Think :: bool
  o_Messages :: "Message list"
  o_Tools :: "ToolParam list"
  o_ToolChoice :: string

text \<open>
  \<^verbatim>\<open>StructuredRequest[T]\<close>. The type parameter only matters through
  \<^verbatim>\<open>renderOutputSpec(new(T))\<close> and the decoding of the output, which are given
  separately (\<open>shape\<close>, \<open>Unmarshal\<close>). \<^verbatim>\<open>PromptOverride\<close> is a map that may be nil,
  \<^verbatim>\<open>Think\<close> a pointer that may be nil.
\<close>

record StructuredRequest =
  Model :: string
  System :: string
  Prompt :: string
  Context :: string
  MessagePrefill :: "Message list"
  Images :: "string list"
  MaxToolCalls :: goint
  Tools :: "Tool list"
  PromptOverride :: "(string \<rightharpoonup> string) option"
  Think :: "bool option"

section \<open>Output-shape description\<close>

text \<open>
  What \<^verbatim>\<open>renderOutputSpec\<close> needs to know of the target type \<^verbatim>\<open>T\<close>: whether
  \<^verbatim>\<open>*T\<close> implements \<^verbatim>\<open>customOutputSpec\<close> (then \<open>DescribeType\<close> is what the method
  returns), and what \<^verbatim>\<open>json.Marshal\<close> gives for a zero-valued instance
  (\<open>Inl\<close> its error, \<open>Inr\<close> the text).
  \<^verbatim>\<open>
  func renderOutputSpec(obj any) (string, error) {
      if cos, ok := obj.(customOutputSpec); ok {
          return cos.DescribeType(), nil
      }
      b, err := json.Marshal(obj)
      return string(b), err
  }
  \<close>
\<close>

record shape =
  DescribeType :: "string option"
  MarshalZero :: "string + string"

definition renderOutputSpec :: "shape \<Rightarrow> string + string" where
  "renderOutputSpec obj =
     (case DescribeType obj of
        Some d \<Rightarrow> Inr d
      | None \<Rightarrow> MarshalZero obj)"

section \<open>Prompt rendering\<close>

record structuredCallParams =
  OutputTemplate :: string
  sp_Prompt :: string
  sp_Context :: string
  sp_MaxToolCalls :: goint

definition defaultStructuredCallPrompt :: string where
  "defaultStructuredCallPrompt =
     ''\<newline>When responding, ensure your output matches the following template strictly, output only json, starting with the { character\<newline><output_template>\<newline>{{.OutputTemplate}}\<newline></output_template>\<newline>{{.Prompt}}\<newline>{{ if gt .MaxToolCalls 0 }}\<newline>Max at most {{.MaxToolCalls}} tool calls.\<newline>{{end}}\<newline><context_for_task>\<newline>{{.Context}}\<newline></context_for_task>''"

definition PromptTypeStructuredCall :: string where
  "PromptTypeStructuredCall = ''structured_call''"

definition getStructuredCallPrompt :: "StructuredRequest \<Rightarrow> string" where
  "getStructuredCallPrompt r =
     (case PromptOverride r of
        None \<Rightarrow> defaultStructuredCallPrompt
      | Some ov \<Rightarrow>
          (case ov PromptTypeStructuredCall of
             None \<Rightarrow> defaultStructuredCallPrompt
           | Some v \<Rightarrow> v))"

text \<open>Decimal digits of a number, as \<^verbatim>\<open>text/template\<close> prints an integer field.\<close>

fun itoa :: "nat \<Rightarrow> string" where
  "itoa n =
     (if n < 10 then [char_of (48 + n)]
      else itoa (n div 10) @ [char_of (48 + n mod 10)])"

text \<open>
  What executing \<open>defaultStructuredCallPrompt\<close> writes: \<^verbatim>\<open>text/template\<close> copies the
  text between actions, prints a string field as it is, and runs the body of
  \<^verbatim>\<open>{{ if gt .MaxToolCalls 0 }}\<close> only when the field is positive. \<open>template_head\<close>
  is the text before \<^verbatim>\<open>{{.OutputTemplate}}\<close>, \<open>template_tail\<close> what is written after
  it.
\<close>

definition template_head :: string where
  "template_head =
     ''\<newline>When responding, ensure your output matches the following template strictly, output only json, starting with the { character\<newline><output_template>\<newline>''"

definition template_tail :: "string \<Rightarrow> string \<Rightarrow> goint \<Rightarrow> string" where
  "template_tail prompt context budget =
     ''\<newline></output_template>\<newline>''
     @ prompt
     @ ''\<newline>''
     @ (if 0 <s budget
        then ''\<newline>Max at most '' @ itoa (unat budget) @ '' tool calls.\<newline>''
        else [])
     @ ''\<newline><context_for_task>\<newline>''
     @ context
     @ ''\<newline></context_for_task>''"

definition render_default :: "structuredCallParams \<Rightarrow> string" where
  "render_default p =
     template_head @ OutputTemplate p
       @ template_tail (sp_Prompt p) (sp_Context p) (sp_MaxToolCalls p)"

text \<open>
  A template can fail when it is parsed or when it is executed. The engine for caller
  supplied templates is the \<^verbatim>\<open>text/template\<close> package, a parameter here; on the
  built-in template it produces \<open>render_default\<close>.
\<close>

datatype template_failure = ParseFailed string | ExecuteFailed string

type_synonym template_engine =
  "string \<Rightarrow> structuredCallParams \<Rightarrow> template_failure + string"

definition execute_template ::
  "template_engine \<Rightarrow> string \<Rightarrow> structuredCallParams \<Rightarrow> template_failure + string" where
  "execute_template eng t p =
     (if t = defaultStructuredCallPrompt then Inr (render_default p) else eng t p)"

section \<open>The Turn Loop\<close>

text \<open>
  What \<^verbatim>\<open>ModelCallStructured\<close> calls outside gllm:
  \<^item> \<open>ChatCompletion\<close>, the gateway call \<^verbatim>\<open>c.ollmc.ChatCompletion(glreq)\<close>; \<open>Inl\<close> is the
    error it returns, \<open>Inr\<close> the messages of \<^verbatim>\<open>resp.Choices\<close>, in order;
  \<^item> \<open>gollama_HandleToolCall\<close>, the call \<^verbatim>\<open>gollama.HandleToolCall(ctx, req.Tools, tc)\<close>;
    \<open>Inl\<close> is the text of the error it returns, \<open>Inr\<close> the tool's response;
  \<^item> \<open>Unmarshal\<close>, \<^verbatim>\<open>json.Unmarshal\<close> into a value of the target type; \<open>Inl\<close> is the
    text of its error;
  \<^item> \<open>Template\<close>, the template engine for a caller supplied template.
\<close>

record ('e, 'a) collaborators =
  ChatCompletion :: "RequestOptions \<Rightarrow> 'e + Message list"
  gollama_HandleToolCall :: "Tool list \<Rightarrow> ToolCall \<Rightarrow> string + string"
  Unmarshal :: "string \<Rightarrow> string + 'a"
  Template :: template_engine

record 'a Response =
  Output :: 'a
  ModelComment :: string
  RawResponse :: "Message list"
  InputMessages :: "Message list"

text \<open>
  The ways \<^verbatim>\<open>ModelCallStructured\<close> returns an error: the error of
  \<^verbatim>\<open>renderOutputSpec\<close> as it is; "failed to parse prompt template"; "prompt template
  execution failed"; the gateway's error as it is; "failed to parse JSON output: ...
  (output was: ...)" with the decoder's error and the cleaned output. The run-time panic
  of \<^verbatim>\<open>resp.Choices[0]\<close> on a response without choices is \<open>NoChoices\<close>.
\<close>

datatype 'e call_error =
    OutputSpecError string
  | TemplateParseError string
  | TemplateExecError string
  | GatewayError 'e
  | ParseOutputError string string
  | NoChoices

text \<open>
  What the run does to the outside, in order: the requests handed to \<open>ChatCompletion\<close>
  and the tool calls handed to \<open>gollama_HandleToolCall\<close>.
\<close>

datatype event = Sent RequestOptions | Called ToolCall

text \<open>
  The variables of the loop: the request behind the pointer \<^verbatim>\<open>req\<close> (its
  \<^verbatim>\<open>MaxToolCalls\<close> is written), the slice \<^verbatim>\<open>msgs\<close>, and the record of what
  happened so far.
\<close>

record loop_state =
  req :: StructuredRequest
  msgs :: "Message list"
  events :: "event list"

definition tool_message :: "string \<Rightarrow> string \<Rightarrow> Message" where
  "tool_message toolresp callid =
     \<lparr>Role = ''tool'', Content = toolresp, m_Images = [], ToolCalls = [],
      ToolCallID = callid\<rparr>"

text \<open>
  \<^verbatim>\<open>
  for _, tc := range mm.ToolCalls {
      toolresp, err := gollama.HandleToolCall(ctx, req.Tools, tc)
      if err != nil {
          // Return error to model instead of failing completely
          toolresp = fmt.Sprintf("Error: %v", err)
      }
      msgs = append(msgs, gollama.Message{Role: "tool", Content: toolresp, ToolCallID: tc.ID})
      req.MaxToolCalls--
      if req.MaxToolCalls <= 0 {
          break
      }
  }
  \<close>
\<close>

definition handle_one :: "('e, 'a) collaborators \<Rightarrow> ToolCall \<Rightarrow> loop_state \<Rightarrow> loop_state" where
  "handle_one c tc st =
     (let toolresp =
            (case gollama_HandleToolCall c (Tools (req st)) tc of
               Inl err \<Rightarrow> ''Error: '' @ err
             | Inr r \<Rightarrow> r)
      in \<lparr>req = (req st)\<lparr>MaxToolCalls := MaxToolCalls (req st) - 1\<rparr>,
          msgs = msgs st @ [tool_message toolresp (tc_ID tc)],
          events = events st @ [Called tc]\<rparr>)"

fun handle_tool_calls ::
  "('e, 'a) collaborators \<Rightarrow> ToolCall list \<Rightarrow> loop_state \<Rightarrow> loop_state" where
  "handle_tool_calls c [] st = st"
| "handle_tool_calls c (tc # tcs) st =
     (let st' = handle_one c tc st
      in if MaxToolCalls (req st') \<le>s 0 then st' else handle_tool_calls c tcs st')"

text \<open>
  The request of one turn:
  \<^verbatim>\<open>
  glreq := gollama.RequestOptions{Model: req.Model, System: req.System, Think: think, Messages: msgs}
  if req.MaxToolCalls > 0 {
      glreq.Tools = tooldefs
      glreq.ToolChoice = "auto"
  }
  \<close>
\<close>

definition glreq :: "ToolParam list \<Rightarrow> bool \<Rightarrow> loop_state \<Rightarrow> RequestOptions" where
  "glreq tooldefs think st =
     \<lparr>o_Model = Model (req st), o_System = System (req st), o_Think = think,
      o_Messages = msgs st,
      o_Tools = (if 0 <s MaxToolCalls (req st) then tooldefs else []),
      o_ToolChoice = (if 0 <s MaxToolCalls (req st) then ''auto'' else [])\<rparr>"

text \<open>
  The terminal branch of a turn (\<^verbatim>\<open>len(mm.ToolCalls) == 0\<close>): clean, extract, decode.
\<close>

definition finish ::
  "('e, 'a) collaborators \<Rightarrow> Message list \<Rightarrow> Message \<Rightarrow> Message list
     \<Rightarrow> 'e call_error + 'a Response" where
  "finish c resp mm ms =
     (let output = cleanJsonOutput (Content mm);
          (message, jsonout) = extractJSONAndComment output
      in case Unmarshal c jsonout of
           Inl err \<Rightarrow> Inl (ParseOutputError err output)
         | Inr outv \<Rightarrow>
             Inr \<lparr>Output = outv, ModelComment = message, RawResponse = resp,
                  InputMessages = ms\<rparr>)"

text \<open>
  The \<^verbatim>\<open>for { ... }\<close> loop of \<^verbatim>\<open>ModelCallStructured\<close>. It has no bound of its own: the
  first argument is the number of turns the run is followed for, and \<open>None\<close> says that
  the loop has not returned within them. The state is returned in every case.
\<close>

fun turn_loop ::
  "nat \<Rightarrow> ('e, 'a) collaborators \<Rightarrow> ToolParam list \<Rightarrow> bool \<Rightarrow> loop_state
     \<Rightarrow> ('e call_error + 'a Response) option \<times> loop_state" where
  "turn_loop 0 c tooldefs think st = (None, st)"
| "turn_loop (Suc n) c tooldefs think st =
     (let rq = glreq tooldefs think st;
          st1 = st\<lparr>events := events st @ [Sent rq]\<rparr>
      in case ChatCompletion c rq of
           Inl err \<Rightarrow> (Some (Inl (GatewayError err)), st1)
         | Inr resp \<Rightarrow>
             (case resp of
                [] \<Rightarrow> (Some (Inl NoChoices), st1)
              | mm # _ \<Rightarrow>
                  if ToolCalls mm = [] then (Some (finish c resp mm (msgs st1)), st1)
                  else turn_loop n c tooldefs think
                         (handle_tool_calls c (ToolCalls mm)
                            (st1\<lparr>msgs := msgs st1 @ [mm]\<rparr>))))"

text \<open>
  The start of \<^verbatim>\<open>ModelCallStructured\<close>: the messages before the first turn.
  \<^verbatim>\<open>
  var msgs []gollama.Message
  if len(req.MessagePrefill) > 0 {
      msgs = req.MessagePrefill
  } else if req.System != "" {
      msgs = append(msgs, gollama.Message{Role: "system", Content: req.System})
  }
  ...
  m := gollama.Message{Role: "user", Content: buf.String()}
  for _, img := range req.Images { m.Images = append(m.Images, img) }
  msgs = append(msgs, m)
  \<close>
\<close>

definition seed_messages :: "StructuredRequest \<Rightarrow> Message list" where
  "seed_messages r =
     (if MessagePrefill r \<noteq> [] then MessagePrefill r
      else if System r \<noteq> [] then
        [\<lparr>Role = ''system'', Content = System r, m_Images = [], ToolCalls = [],
          ToolCallID = []\<rparr>]
      else [])"

definition user_message :: "StructuredRequest \<Rightarrow> string \<Rightarrow> Message" where
  "user_message r content =
     \<lparr>Role = ''user'', Content = content, m_Images = Images r, ToolCalls = [],
      ToolCallID = []\<rparr>"

definition render_prompt ::
  "template_engine \<Rightarrow> StructuredRequest \<Rightarrow> string \<Rightarrow> template_failure + string" where
  "render_prompt eng r ospec =
     execute_template eng (getStructuredCallPrompt r)
       \<lparr>OutputTemplate = ospec, sp_Prompt = Prompt r, sp_Context = Context r,
        sp_MaxToolCalls = MaxToolCalls r\<rparr>"

definition ModelCallStructured ::
  "nat \<Rightarrow> ('e, 'a) collaborators \<Rightarrow> shape \<Rightarrow> StructuredRequest
     \<Rightarrow> ('e call_error + 'a Response) option \<times> loop_state" where
  "ModelCallStructured n c T r =
     (let st0 = \<lparr>req = r, msgs = [], events = []\<rparr>
      in case renderOutputSpec T of
           Inl err \<Rightarrow> (Some (Inl (OutputSpecError err)), st0)
         | Inr ospec \<Rightarrow>
             (case render_prompt (Template c) r ospec of
                Inl (ParseFailed err) \<Rightarrow> (Some (Inl (TemplateParseError err)), st0)
              | Inl (ExecuteFailed err) \<Rightarrow> (Some (Inl (TemplateExecError err)), st0)
              | Inr content \<Rightarrow>
                  turn_loop n c (map GollamaToolDef (Tools r))
                    (case Think r of None \<Rightarrow> True | Some b \<Rightarrow> b)
                    (st0\<lparr>msgs := seed_messages r @ [user_message r content]\<rparr>)))"

section \<open>Batch result reconciliation\<close>

text \<open>
  The types of the gollama package that \<^verbatim>\<open>GetModelCallBatchResults\<close> reads:
  \<^verbatim>\<open>Batch{ID, ProcessingStatus, RequestCounts}\<close>, and per item
  \<^verbatim>\<open>{CustomID, Result{Type, Message *{Content []{Type, Text}}, Error *BatchError}}\<close>.
  A nil pointer is \<open>None\<close>.
\<close>

record BatchError =
  e_Type :: string
  e_Message :: string

record ContentBlock =
  b_Type :: string
  b_Text :: string

text \<open>
  Modelled from the spec: the fields of \<^verbatim>\<open>gollama.BatchRequestCounts\<close>, a type the
  repository only passes on ("request counts by outcome category").
\<close>

record BatchRequestCounts =
  Processing :: int
  Succeeded :: int
  Errored :: int
  Canceled :: int
  Expired :: int

record Batch =
  ID :: string
  ProcessingStatus :: string
  b_RequestCounts :: BatchRequestCounts

record BatchItem =
  i_CustomID :: string
  i_Type :: string
  i_Message :: "ContentBlock list option"
  i_Error :: "BatchError option"

record 'a BatchResult =
  CustomID :: string
  r_Output :: "'a option"
  r_ModelComment :: string
  Error :: "BatchError option"
  ResultType :: string

record 'a BatchResponse =
  BatchID :: string
  Status :: string
  RequestCounts :: BatchRequestCounts
  Results :: "'a BatchResult list"
  RawBatch :: Batch

text \<open>The two gateway calls of the function; \<open>Inl\<close> is the error the call returns.\<close>

record 'e batch_gateway =
  GetBatch :: "string \<Rightarrow> 'e + Batch"
  GetBatchResults :: "string \<Rightarrow> 'e + BatchItem list"

datatype 'e batch_error = GetBatchStatusFailed 'e | GetBatchResultsFailed 'e

text \<open>
  \<^verbatim>\<open>
  var contentText string
  for _, block := range result.Result.Message.Content {
      if block.Type == "text" { contentText += block.Text }
  }
  \<close>
\<close>

fun content_text :: "string \<Rightarrow> ContentBlock list \<Rightarrow> string" where
  "content_text acc [] = acc"
| "content_text acc (block # blocks) =
     content_text (if b_Type block = ''text'' then acc @ b_Text block else acc) blocks"

text \<open>The \<^verbatim>\<open>case "succeeded"\<close> branch of the switch, applied to the fresh entry \<open>br\<close>.\<close>

definition succeeded_item ::
  "(string \<Rightarrow> string + 'a) \<Rightarrow> BatchItem \<Rightarrow> 'a BatchResult \<Rightarrow> 'a BatchResult" where
  "succeeded_item unmarshal result br =
     (case i_Message result of
        None \<Rightarrow>
          br\<lparr>Error := Some \<lparr>e_Type = ''missing_message'',
                 e_Message = ''result marked as succeeded but message is nil''\<rparr>\<rparr>
      | Some content \<Rightarrow>
          if length content = 0 then
            br\<lparr>Error := Some \<lparr>e_Type = ''missing_content'',
                   e_Message = ''result marked as succeeded but no content returned''\<rparr>\<rparr>
          else
            (let output = cleanJsonOutput (content_text [] content);
                 (message, jsonout) = extractJSONAndComment output;
                 br1 = br\<lparr>r_ModelComment := message\<rparr>
             in if jsonout = [] then
                  br1\<lparr>Error := Some \<lparr>e_Type = ''no_json_output'',
                          e_Message = ''no JSON output found in response''\<rparr>\<rparr>
                else
                  (case unmarshal jsonout of
                     Inl err \<Rightarrow>
                       br1\<lparr>Error := Some \<lparr>e_Type = ''parsing_error'',
                               e_Message = ''failed to parse JSON output: '' @ err\<rparr>\<rparr>
                   | Inr outv \<Rightarrow> br1\<lparr>r_Output := Some outv\<rparr>)))"

text \<open>The body of the loop over the results: the entry built for one item.\<close>

definition parse_item :: "(string \<Rightarrow> string + 'a) \<Rightarrow> BatchItem \<Rightarrow> 'a BatchResult" where
  "parse_item unmarshal result =
     (let br = \<lparr>CustomID = i_CustomID result, r_Output = None, r_ModelComment = [],
                Error = None, ResultType = i_Type result\<rparr>
      in if i_Type result = ''succeeded'' then succeeded_item unmarshal result br
         else if i_Type result = ''errored'' then br\<lparr>Error := i_Error result\<rparr>
         else br)"

text \<open>
  \<^verbatim>\<open>for _, result := range results { ...; batchResults = append(batchResults, br) }\<close>
\<close>

fun parse_results ::
  "(string \<Rightarrow> string + 'a) \<Rightarrow> 'a BatchResult list \<Rightarrow> BatchItem list
     \<Rightarrow> 'a BatchResult list" where
  "parse_results unmarshal batchResults [] = batchResults"
| "parse_results unmarshal batchResults (result # results) =
     parse_results unmarshal (batchResults @ [parse_item unmarshal result]) results"

definition GetModelCallBatchResults ::
  "'e batch_gateway \<Rightarrow> (string \<Rightarrow> string + 'a) \<Rightarrow> string
     \<Rightarrow> 'e batch_error + 'a BatchResponse" where
  "GetModelCallBatchResults gw unmarshal batchID =
     (case GetBatch gw batchID of
        Inl err \<Rightarrow> Inl (GetBatchStatusFailed err)
      | Inr batch \<Rightarrow>
          (let response = \<lparr>BatchID = ID batch, Status = ProcessingStatus batch,
                           RequestCounts = b_RequestCounts batch, Results = [],
                           RawBatch = batch\<rparr>
           in if ProcessingStatus batch \<noteq> ''ended'' then Inr response
              else (case GetBatchResults gw batchID of
                      Inl err \<Rightarrow> Inl (GetBatchResultsFailed err)
                    | Inr results \<Rightarrow>
                        Inr (response\<lparr>Results := parse_results unmarshal [] results\<rparr>))))"

section \<open>The tool registry of the client\<close>

text \<open>
  The revision of \<^verbatim>\<open>gllm.go\<close> that keeps the tools in the client:
  \<^verbatim>\<open>type Client struct { ollmc *gollama.Client; Tools map[string]*Tool; Debug bool }\<close>.
  \<^verbatim>\<open>
  func (c *Client) AddTool(t *Tool) {
      if c.Tools == nil { c.Tools = make(map[string]*Tool) }
      c.Tools[t.Name] = t
  }
  \<close>
\<close>

record Client =
  c_Tools :: "string \<rightharpoonup> Tool"
  Debug :: bool

definition AddTool :: "Client \<Rightarrow> Tool \<Rightarrow> Client" where
  "AddTool c t = c\<lparr>c_Tools := (c_Tools c)(t_Name t \<mapsto> t)\<rparr>"

text \<open>\<^verbatim>\<open>NewClient\<close>: a client with an empty registry.\<close>

definition NewClient :: Client where
  "NewClient = \<lparr>c_Tools = Map.empty, Debug = False\<rparr>"

text \<open>
  The merged list built by \<^verbatim>\<open>ModelCallStructured\<close>:
  \<^verbatim>\<open>
  var tools []*Tool
  for _, t := range c.Tools { tools = append(tools, t) }
  for _, t := range req.Tools { tools = append(tools, t) }
  \<close>
  Go does not say in which order a range loop visits a map: \<open>keys\<close> is the order of this
  run, each key of the map once.
\<close>

definition merged_tools :: "Client \<Rightarrow> string list \<Rightarrow> Tool list \<Rightarrow> Tool list" where
  "merged_tools c keys req_tools = List.map_filter (c_Tools c) keys @ req_tools"

text \<open>
  \<^verbatim>\<open>
  var t *Tool
  for _, ot := range tools {
      if ot.Name == call.Function.Name { t = ot; break }
  }
  \<close>
\<close>

fun lookup_tool :: "Tool list \<Rightarrow> string \<Rightarrow> Tool option" where
  "lookup_tool [] name = None"
| "lookup_tool (ot # tools) name =
     (if t_Name ot = name then Some ot else lookup_tool tools name)"

text \<open>
  The errors of \<^verbatim>\<open>HandleToolCall\<close>: "no such tool" with the name, "invalid arguments"
  with the decoder's error, "tool invocation failed" with the tool's error.
\<close>

datatype tool_error =
    NoSuchTool string
  | InvalidArguments string
  | ToolInvocationFailed string

text \<open>
  \<^verbatim>\<open>
  func (c *Client) HandleToolCall(tools []*Tool, call gollama.ToolCall) (string, error) {
      ... if t == nil { return "", fmt.Errorf("no such tool %q", call.Function.Name) }
      var obj map[string]any
      if err := json.Unmarshal([]byte(call.Function.Arguments), &obj); err != nil {
          return "", fmt.Errorf("invalid arguments: %w", err)
      }
      resp, err := t.Func(obj)
      if err != nil { return "", fmt.Errorf("tool invocation failed: %w", err) }
      return resp, nil
  }
  \<close>
  \<open>unmarshal_args\<close> is \<^verbatim>\<open>json.Unmarshal\<close> into the argument map.
\<close>

definition HandleToolCall ::
  "(string \<Rightarrow> string + argmap) \<Rightarrow> Tool list \<Rightarrow> ToolCall \<Rightarrow> tool_error + string" where
  "HandleToolCall unmarshal_args tools call =
     (case lookup_tool tools (fn_Name call) of
        None \<Rightarrow> Inl (NoSuchTool (fn_Name call))
      | Some t \<Rightarrow>
          (case unmarshal_args (fn_Arguments call) of
             Inl err \<Rightarrow> Inl (InvalidArguments err)
           | Inr obj \<Rightarrow>
               (case Func t obj of
                  Inl err \<Rightarrow> Inl (ToolInvocationFailed err)
                | Inr resp \<Rightarrow> Inr resp)))"

section \<open>Observations on a run and on a prompt\<close>

text \<open>The tool calls a run has handed to the tool handler, and the requests it has sent.\<close>

fun is_call :: "event \<Rightarrow> bool" where
  "is_call (Called tc) = True"
| "is_call (Sent rq) = False"

definition tool_invocations :: "loop_state \<Rightarrow> nat" where
  "tool_invocations st = length (filter is_call (events st))"

fun sent_requests :: "event list \<Rightarrow> RequestOptions list" where
  "sent_requests [] = []"
| "sent_requests (Sent rq # es) = rq # sent_requests es"
| "sent_requests (Called tc # es) = sent_requests es"

fun handled_calls :: "event list \<Rightarrow> ToolCall list" where
  "handled_calls [] = []"
| "handled_calls (Sent rq # es) = handled_calls es"
| "handled_calls (Called tc # es) = tc # handled_calls es"

text \<open>The number of positions of a text at which a given string occurs.\<close>

fun occurrences :: "string \<Rightarrow> string \<Rightarrow> nat" where
  "occurrences d [] = (if d = [] then 1 else 0)"
| "occurrences d (ch # s) = (if HasPrefix (ch # s) d then 1 else 0) + occurrences d s"

section \<open>Example inputs\<close>

text \<open>
  Concrete collaborators and requests on which the theorems below are instantiated.
  \<open>decode_a\<close> stands for decoding into \<^verbatim>\<open>struct{ A int `json:"a"` }\<close>: it knows one
  well-formed payload and reports the error of \<^verbatim>\<open>json.Unmarshal\<close> on empty and on
  truncated input.
\<close>

definition decode_a :: "string \<Rightarrow> string + int" where
  \<open>decode_a s =
     (if s = ''{"a":1}'' then Inr 1
      else if s = [] \<or> s = ''{"a":'' then Inl ''unexpected end of JSON input''
      else Inl ''invalid character'')\<close>

definition ended_batch :: Batch where
  "ended_batch =
     \<lparr>ID = ''batch-1'', ProcessingStatus = ''ended'',
      b_RequestCounts =
        \<lparr>Processing = 0, Succeeded = 3, Errored = 1, Canceled = 1, Expired = 0\<rparr>\<rparr>"

definition running_batch :: Batch where
  "running_batch =
     \<lparr>ID = ''batch-1'', ProcessingStatus = ''in_progress'',
      b_RequestCounts =
        \<lparr>Processing = 5, Succeeded = 0, Errored = 0, Canceled = 0, Expired = 0\<rparr>\<rparr>"

definition batch_items :: "BatchItem list" where
  \<open>batch_items =
     [\<lparr>i_CustomID = ''request-0'', i_Type = ''succeeded'',
       i_Message = Some [\<lparr>b_Type = ''text'', b_Text = ''{"a":1}''\<rparr>], i_Error = None\<rparr>,
      \<lparr>i_CustomID = ''request-1'', i_Type = ''succeeded'',
       i_Message = None, i_Error = None\<rparr>,
      \<lparr>i_CustomID = ''request-2'', i_Type = ''succeeded'',
       i_Message = Some [\<lparr>b_Type = ''text'', b_Text = ''hello''\<rparr>], i_Error = None\<rparr>,
      \<lparr>i_CustomID = ''request-3'', i_Type = ''errored'',
       i_Message = None,
       i_Error = Some \<lparr>e_Type = ''api_error'', e_Message = ''overloaded''\<rparr>\<rparr>,
      \<lparr>i_CustomID = ''request-4'', i_Type = ''canceled'',
       i_Message = None, i_Error = None\<rparr>]\<close>

definition ended_gateway :: "string batch_gateway" where
  "ended_gateway =
     \<lparr>GetBatch = (\<lambda>batchID. Inr ended_batch),
      GetBatchResults = (\<lambda>batchID. Inr batch_items)\<rparr>"

text \<open>The same batch at a later poll: other counts, the same items.\<close>

definition ended_gateway_later :: "string batch_gateway" where
  "ended_gateway_later =
     \<lparr>GetBatch = (\<lambda>batchID. Inr (ended_batch\<lparr>b_RequestCounts :=
          \<lparr>Processing = 0, Succeeded = 1, Errored = 1, Canceled = 1, Expired = 0\<rparr>\<rparr>)),
      GetBatchResults = (\<lambda>batchID. Inr batch_items)\<rparr>"

definition running_gateway :: "string batch_gateway" where
  "running_gateway =
     \<lparr>GetBatch = (\<lambda>batchID. Inr running_batch),
      GetBatchResults = (\<lambda>batchID. Inl ''batch has not ended'')\<rparr>"

text \<open>
  A target type with a description of its own, a tool, and three models behind the
  gateway: one that asks for the clock until it sees a tool result, whether or not tools
  were declared to it; one that asks for three calls in every turn in which tools were
  declared; one that asks for a tool nobody registered.
\<close>

definition shape_a :: shape where
  \<open>shape_a = \<lparr>DescribeType = Some ''{"a": int}'', MarshalZero = Inr ''{"a":0}''\<rparr>\<close>

definition clock_tool :: Tool where
  "clock_tool =
     \<lparr>t_Name = ''clock'', Description = ''the time of day'',
      Params = \<lparr>p_Type = ''object'', Properties = [], Required = []\<rparr>,
      Func = (\<lambda>args. Inr ''12:00'')\<rparr>"

definition call_tool :: "string \<Rightarrow> string \<Rightarrow> ToolCall" where
  "call_tool callid name = \<lparr>tc_ID = callid, fn_Name = name, fn_Arguments = ''{}''\<rparr>"

definition asks :: "ToolCall list \<Rightarrow> Message" where
  "asks calls =
     \<lparr>Role = ''assistant'', Content = [], m_Images = [], ToolCalls = calls,
      ToolCallID = []\<rparr>"

definition answers :: "string \<Rightarrow> Message" where
  "answers text =
     \<lparr>Role = ''assistant'', Content = text, m_Images = [], ToolCalls = [],
      ToolCallID = []\<rparr>"

definition seen_tool_result :: "RequestOptions \<Rightarrow> bool" where
  "seen_tool_result rq = (filter (\<lambda>m. Role m = ''tool'') (o_Messages rq) \<noteq> [])"

definition insistent_model :: "RequestOptions \<Rightarrow> string + Message list" where
  \<open>insistent_model rq =
     (if seen_tool_result rq then Inr [answers ''{"a":1}'']
      else Inr [asks [call_tool ''call-1'' ''clock'']])\<close>

definition polite_model :: "RequestOptions \<Rightarrow> string + Message list" where
  \<open>polite_model rq =
     (if o_Tools rq = [] then Inr [answers ''{"a":1}'']
      else Inr [asks [call_tool ''call-1'' ''clock'', call_tool ''call-2'' ''clock'',
                      call_tool ''call-3'' ''clock'']])\<close>


text \<open>
  A tool handler in the manner of \<open>HandleToolCall\<close>, its errors as the text of
  \<^verbatim>\<open>fmt.Errorf\<close>; \<^verbatim>\<open>%q\<close> puts the name in double quotes (a name of plain letters
  needs no escapes).
\<close>

definition text_handler :: "Tool list \<Rightarrow> ToolCall \<Rightarrow> string + string" where
  "text_handler tools tc =
     (case HandleToolCall (\<lambda>s. Inr []) tools tc of
        Inl (NoSuchTool name) \<Rightarrow> Inl (''no such tool '' @ CHR 0x22 # name @ [CHR 0x22])
      | Inl (InvalidArguments err) \<Rightarrow> Inl (''invalid arguments: '' @ err)
      | Inl (ToolInvocationFailed err) \<Rightarrow> Inl (''tool invocation failed: '' @ err)
      | Inr resp \<Rightarrow> Inr resp)"

definition with_model ::
  "(RequestOptions \<Rightarrow> string + Message list) \<Rightarrow> (string, int) collaborators" where
  "with_model model =
     \<lparr>ChatCompletion = model, gollama_HandleToolCall = text_handler,
      Unmarshal = decode_a,
      Template = (\<lambda>t p. Inl (ParseFailed ''unexpected EOF''))\<rparr>"

definition request_with_budget :: "goint \<Rightarrow> StructuredRequest" where
  "request_with_budget b =
     \<lparr>Model = ''m1'', System = [], Prompt = ''Give a.'', Context = ''none'',
      MessagePrefill = [], Images = [], MaxToolCalls = b, Tools = [clock_tool],
      PromptOverride = None, Think = None\<rparr>"


definition prefilled_request :: StructuredRequest where
  "prefilled_request =
     \<lparr>Model = ''m1'', System = ''Answer in French.'', Prompt = ''Give a.'',
      Context = ''none'',
      MessagePrefill =
        [\<lparr>Role = ''user'', Content = ''Hi'', m_Images = [], ToolCalls = [],
          ToolCallID = []\<rparr>,
         \<lparr>Role = ''assistant'', Content = ''Hello'', m_Images = [], ToolCalls = [],
          ToolCallID = []\<rparr>],
      Images = [], MaxToolCalls = 0, Tools = [], PromptOverride = None, Think = None\<rparr>"

definition shape_json :: shape where
  "shape_json = \<lparr>DescribeType = Some ''json'', MarshalZero = Inr ''{}''\<rparr>"

definition shape_chan :: shape where
  "shape_chan =
     \<lparr>DescribeType = None, MarshalZero = Inl ''json: unsupported type: chan int''\<rparr>"

definition late_clock :: Tool where
  "late_clock = clock_tool\<lparr>Func := (\<lambda>args. Inr ''18:30'')\<rparr>"

section \<open>Response extraction: properties\<close>

text \<open>
  C4. Fence stripping followed by extraction, on the two inputs of the specification:
  the bare payload \<^verbatim>\<open>{"a":1}\<close> gives an empty comment and the payload; the fenced text
  with the line "hello" before the payload gives the comment "hello" and the payload,
  also when the line is indented as in the specification's example.
\<close>

theorem extractor_round_trip:
  \<open>extractJSONAndComment (cleanJsonOutput ''{"a":1}'') = ('''', ''{"a":1}'') \<and>
   extractJSONAndComment
     (cleanJsonOutput ''```json\<newline>hello\<newline>{"a":1}\<newline>```'') =
     (''hello'', ''{"a":1}'') \<and>
   extractJSONAndComment
     (cleanJsonOutput ''```json\<newline> hello\<newline>{"a":1}\<newline>```'') =
     (''hello'', ''{"a":1}'')\<close>
  by code_simp

section \<open>Batch reconciliation: properties\<close>

lemma parse_results_append:
  "parse_results unmarshal acc results = acc @ map (parse_item unmarshal) results"
  by (induction results arbitrary: acc) simp_all

lemma parse_item_ids:
  "CustomID (parse_item unmarshal item) = i_CustomID item \<and>
   ResultType (parse_item unmarshal item) = i_Type item"
  by (simp add: parse_item_def succeeded_item_def Let_def
      split: option.split sum.split prod.split)

lemma parse_item_missing_message:
  "i_Type item = ''succeeded'' \<Longrightarrow> i_Message item = None \<Longrightarrow>
   Error (parse_item unmarshal item) =
     Some \<lparr>e_Type = ''missing_message'',
           e_Message = ''result marked as succeeded but message is nil''\<rparr> \<and>
   r_Output (parse_item unmarshal item) = None"
  by (simp add: parse_item_def succeeded_item_def)

lemma parse_item_missing_content:
  "i_Type item = ''succeeded'' \<Longrightarrow> i_Message item = Some [] \<Longrightarrow>
   Error (parse_item unmarshal item) =
     Some \<lparr>e_Type = ''missing_content'',
           e_Message = ''result marked as succeeded but no content returned''\<rparr> \<and>
   r_Output (parse_item unmarshal item) = None"
  by (simp add: parse_item_def succeeded_item_def)

lemma parse_item_no_json:
  "i_Type item = ''succeeded'' \<Longrightarrow> i_Message item = Some content \<Longrightarrow> content \<noteq> [] \<Longrightarrow>
   snd (extractJSONAndComment (cleanJsonOutput (content_text [] content))) = [] \<Longrightarrow>
   Error (parse_item unmarshal item) =
     Some \<lparr>e_Type = ''no_json_output'',
           e_Message = ''no JSON output found in response''\<rparr> \<and>
   r_Output (parse_item unmarshal item) = None"
  by (auto simp add: parse_item_def succeeded_item_def Let_def split: prod.split)

lemma parse_item_parsing_error:
  "i_Type item = ''succeeded'' \<Longrightarrow> i_Message item = Some content \<Longrightarrow> content \<noteq> [] \<Longrightarrow>
   snd (extractJSONAndComment (cleanJsonOutput (content_text [] content))) \<noteq> [] \<Longrightarrow>
   unmarshal (snd (extractJSONAndComment (cleanJsonOutput (content_text [] content))))
     = Inl err \<Longrightarrow>
   Error (parse_item unmarshal item) =
     Some \<lparr>e_Type = ''parsing_error'',
           e_Message = ''failed to parse JSON output: '' @ err\<rparr> \<and>
   r_Output (parse_item unmarshal item) = None"
  by (auto simp add: parse_item_def succeeded_item_def Let_def split: prod.split)

lemma ended_results:
  assumes "GetBatch gw batchID = Inr batch" and "ProcessingStatus batch = ''ended''"
    and "GetBatchResults gw batchID = Inr results"
  shows "GetModelCallBatchResults gw unmarshal batchID =
     Inr \<lparr>BatchID = ID batch, Status = ProcessingStatus batch,
          RequestCounts = b_RequestCounts batch,
          Results = map (parse_item unmarshal) results, RawBatch = batch\<rparr>"
  using assms by (simp add: GetModelCallBatchResults_def parse_results_append)

text \<open>
  C5. When the batch has ended and the gateway delivers its items, reconciliation
  succeeds as a whole and returns one entry per item, in the items' order, each with
  its item's identifier and outcome type and each computed from its own item alone. A
  succeeded item whose message is missing, whose content is empty, in which no payload
  is found, or whose payload does not decode, gets the matching error on its own entry
  and no output.
\<close>

theorem reconciliation_one_entry_per_item:
  assumes "GetBatch gw batchID = Inr batch" and "ProcessingStatus batch = ''ended''"
    and "GetBatchResults gw batchID = Inr results"
  shows "\<exists>response.
     GetModelCallBatchResults gw unmarshal batchID = Inr response \<and>
     length (Results response) = length results \<and>
     Results response = map (parse_item unmarshal) results \<and>
     (\<forall>i. i < length results \<longrightarrow>
        CustomID (Results response ! i) = i_CustomID (results ! i) \<and>
        ResultType (Results response ! i) = i_Type (results ! i) \<and>
        (i_Type (results ! i) = ''succeeded'' \<longrightarrow>
           (i_Message (results ! i) = None \<longrightarrow>
              Error (Results response ! i) =
                Some \<lparr>e_Type = ''missing_message'',
                      e_Message = ''result marked as succeeded but message is nil''\<rparr> \<and>
              r_Output (Results response ! i) = None) \<and>
           (i_Message (results ! i) = Some [] \<longrightarrow>
              Error (Results response ! i) =
                Some \<lparr>e_Type = ''missing_content'',
                      e_Message = ''result marked as succeeded but no content returned''\<rparr> \<and>
              r_Output (Results response ! i) = None) \<and>
           (\<forall>content. i_Message (results ! i) = Some content \<and> content \<noteq> [] \<longrightarrow>
              (snd (extractJSONAndComment (cleanJsonOutput (content_text [] content))) = []
                 \<longrightarrow>
                 Error (Results response ! i) =
                   Some \<lparr>e_Type = ''no_json_output'',
                         e_Message = ''no JSON output found in response''\<rparr> \<and>
                 r_Output (Results response ! i) = None) \<and>
              (\<forall>err.
                 snd (extractJSONAndComment (cleanJsonOutput (content_text [] content)))
                   \<noteq> [] \<and>
                 unmarshal
                   (snd (extractJSONAndComment (cleanJsonOutput (content_text [] content))))
                   = Inl err \<longrightarrow>
                 Error (Results response ! i) =
                   Some \<lparr>e_Type = ''parsing_error'',
                         e_Message = ''failed to parse JSON output: '' @ err\<rparr> \<and>
                 r_Output (Results response ! i) = None))))"
proof -
  let ?response =
    "\<lparr>BatchID = ID batch, Status = ProcessingStatus batch,
      RequestCounts = b_RequestCounts batch,
      Results = map (parse_item unmarshal) results, RawBatch = batch\<rparr>"
  have run: "GetModelCallBatchResults gw unmarshal batchID = Inr ?response"
    using assms by (rule ended_results)
  have entry: "Results ?response ! i = parse_item unmarshal (results ! i)"
    if "i < length results" for i
    using that by simp
  show ?thesis
  proof (intro exI [of _ ?response] conjI allI impI)
    show "GetModelCallBatchResults gw unmarshal batchID = Inr ?response"
      by (rule run)
  qed (simp_all add: entry parse_item_ids parse_item_missing_message
        parse_item_missing_content parse_item_no_json parse_item_parsing_error)
qed

theorem reconciliation_one_entry_per_item_witness:
  "\<exists>response.
     GetModelCallBatchResults ended_gateway decode_a ''batch-1'' = Inr response \<and>
     length (Results response) = 5 \<and>
     map CustomID (Results response) =
       [''request-0'', ''request-1'', ''request-2'', ''request-3'', ''request-4''] \<and>
     map ResultType (Results response) =
       [''succeeded'', ''succeeded'', ''succeeded'', ''errored'', ''canceled''] \<and>
     map r_Output (Results response) = [Some 1, None, None, None, None] \<and>
     map (map_option e_Type \<circ> Error) (Results response) =
       [None, Some ''missing_message'', Some ''no_json_output'', Some ''api_error'', None]"
proof -
  have h1: "GetBatch ended_gateway ''batch-1'' = Inr ended_batch"
    by (simp add: ended_gateway_def)
  have h2: "ProcessingStatus ended_batch = ''ended''"
    by (simp add: ended_batch_def)
  have h3: "GetBatchResults ended_gateway ''batch-1'' = Inr batch_items"
    by (simp add: ended_gateway_def)
  have items: "map (parse_item decode_a) batch_items =
     [\<lparr>CustomID = ''request-0'', r_Output = Some 1, r_ModelComment = [], Error = None,
       ResultType = ''succeeded''\<rparr>,
      \<lparr>CustomID = ''request-1'', r_Output = None, r_ModelComment = [],
       Error = Some \<lparr>e_Type = ''missing_message'',
                     e_Message = ''result marked as succeeded but message is nil''\<rparr>,
       ResultType = ''succeeded''\<rparr>,
      \<lparr>CustomID = ''request-2'', r_Output = None, r_ModelComment = ''hello'',
       Error = Some \<lparr>e_Type = ''no_json_output'',
                     e_Message = ''no JSON output found in response''\<rparr>,
       ResultType = ''succeeded''\<rparr>,
      \<lparr>CustomID = ''request-3'', r_Output = None, r_ModelComment = [],
       Error = Some \<lparr>e_Type = ''api_error'', e_Message = ''overloaded''\<rparr>,
       ResultType = ''errored''\<rparr>,
      \<lparr>CustomID = ''request-4'', r_Output = None, r_ModelComment = [], Error = None,
       ResultType = ''canceled''\<rparr>]"
    by code_simp
  from reconciliation_one_entry_per_item [OF h1 h2 h3, of decode_a]
  obtain response where
    r: "GetModelCallBatchResults ended_gateway decode_a ''batch-1'' = Inr response"
    and m: "Results response = map (parse_item decode_a) batch_items"
    by blast
  show ?thesis
    by (rule exI [of _ response]) (simp add: r m items)
qed

text \<open>
  C9. Polling is gated by the status: while the gateway does not report the batch as
  ended, the answer carries the identifier, status and request counts of the batch and
  no results (the results are not even fetched). It is repeatable: two polls that find
  the batch ended and get the same items from the gateway decode to the same results,
  whatever else the gateway reports about the batch.
\<close>

theorem reconciliation_gated_and_repeatable:
  "(GetBatch gw batchID = Inr batch \<and> ProcessingStatus batch \<noteq> ''ended'' \<longrightarrow>
      GetModelCallBatchResults gw unmarshal batchID =
        Inr \<lparr>BatchID = ID batch, Status = ProcessingStatus batch,
             RequestCounts = b_RequestCounts batch, Results = [], RawBatch = batch\<rparr>) \<and>
   (GetBatch gw1 batchID = Inr batch1 \<and> ProcessingStatus batch1 = ''ended'' \<and>
    GetBatchResults gw1 batchID = Inr results \<and>
    GetBatch gw2 batchID = Inr batch2 \<and> ProcessingStatus batch2 = ''ended'' \<and>
    GetBatchResults gw2 batchID = Inr results \<longrightarrow>
      (\<exists>first second.
         GetModelCallBatchResults gw1 unmarshal batchID = Inr first \<and>
         GetModelCallBatchResults gw2 unmarshal batchID = Inr second \<and>
         Results first = Results second \<and>
         Results first = map (parse_item unmarshal) results))"
proof (intro conjI impI)
  assume "GetBatch gw batchID = Inr batch \<and> ProcessingStatus batch \<noteq> ''ended''"
  then show "GetModelCallBatchResults gw unmarshal batchID =
        Inr \<lparr>BatchID = ID batch, Status = ProcessingStatus batch,
             RequestCounts = b_RequestCounts batch, Results = [], RawBatch = batch\<rparr>"
    by (simp add: GetModelCallBatchResults_def)
next
  assume a: "GetBatch gw1 batchID = Inr batch1 \<and> ProcessingStatus batch1 = ''ended'' \<and>
    GetBatchResults gw1 batchID = Inr results \<and>
    GetBatch gw2 batchID = Inr batch2 \<and> ProcessingStatus batch2 = ''ended'' \<and>
    GetBatchResults gw2 batchID = Inr results"
  have one: "GetModelCallBatchResults gw1 unmarshal batchID =
     Inr \<lparr>BatchID = ID batch1, Status = ProcessingStatus batch1,
          RequestCounts = b_RequestCounts batch1,
          Results = map (parse_item unmarshal) results, RawBatch = batch1\<rparr>"
    using a by (intro ended_results) simp_all
  have two: "GetModelCallBatchResults gw2 unmarshal batchID =
     Inr \<lparr>BatchID = ID batch2, Status = ProcessingStatus batch2,
          RequestCounts = b_RequestCounts batch2,
          Results = map (parse_item unmarshal) results, RawBatch = batch2\<rparr>"
    using a by (intro ended_results) simp_all
  show "\<exists>first second.
         GetModelCallBatchResults gw1 unmarshal batchID = Inr first \<and>
         GetModelCallBatchResults gw2 unmarshal batchID = Inr second \<and>
         Results first = Results second \<and>
         Results first = map (parse_item unmarshal) results"
    using one two by simp
qed

theorem reconciliation_gated_and_repeatable_witness:
  "GetModelCallBatchResults running_gateway decode_a ''batch-1'' =
     Inr \<lparr>BatchID = ''batch-1'', Status = ''in_progress'',
          RequestCounts =
            \<lparr>Processing = 5, Succeeded = 0, Errored = 0, Canceled = 0, Expired = 0\<rparr>,
          Results = [], RawBatch = running_batch\<rparr> \<and>
   (\<exists>first second.
      GetModelCallBatchResults ended_gateway decode_a ''batch-1'' = Inr first \<and>
      GetModelCallBatchResults ended_gateway_later decode_a ''batch-1'' = Inr second \<and>
      RequestCounts first \<noteq> RequestCounts second \<and>
      Results first = Results second \<and>
      length (Results first) = 5)"
proof -
  have g: "GetBatch running_gateway ''batch-1'' = Inr running_batch \<and>
           ProcessingStatus running_batch \<noteq> ''ended''"
    by (simp add: running_gateway_def running_batch_def)
  let ?later = "ended_batch\<lparr>b_RequestCounts :=
          \<lparr>Processing = 0, Succeeded = 1, Errored = 1, Canceled = 1, Expired = 0\<rparr>\<rparr>"
  have e: "GetBatch ended_gateway ''batch-1'' = Inr ended_batch \<and>
           ProcessingStatus ended_batch = ''ended'' \<and>
           GetBatchResults ended_gateway ''batch-1'' = Inr batch_items \<and>
           GetBatch ended_gateway_later ''batch-1'' = Inr ?later \<and>
           ProcessingStatus ?later = ''ended'' \<and>
           GetBatchResults ended_gateway_later ''batch-1'' = Inr batch_items"
    by (simp add: ended_gateway_def ended_gateway_later_def ended_batch_def)
  note inst = reconciliation_gated_and_repeatable
    [of running_gateway "''batch-1''" running_batch decode_a
        ended_gateway ended_batch batch_items ended_gateway_later "?later"]
  from inst g have first_part:
    "GetModelCallBatchResults running_gateway decode_a ''batch-1'' =
       Inr \<lparr>BatchID = ID running_batch, Status = ProcessingStatus running_batch,
            RequestCounts = b_RequestCounts running_batch, Results = [],
            RawBatch = running_batch\<rparr>"
    by blast
  from inst e obtain first second where
    r1: "GetModelCallBatchResults ended_gateway decode_a ''batch-1'' = Inr first"
    and r2: "GetModelCallBatchResults ended_gateway_later decode_a ''batch-1'' = Inr second"
    and same: "Results first = Results second"
    and res: "Results first = map (parse_item decode_a) batch_items"
    by blast
  have counts: "RequestCounts first \<noteq> RequestCounts second"
    using r1 r2
    by (auto simp add: GetModelCallBatchResults_def ended_gateway_def
        ended_gateway_later_def ended_batch_def)
  have len: "length (Results first) = 5"
    by (simp add: res batch_items_def)
  show ?thesis
    using first_part r1 r2 same counts len
    by (auto simp add: running_batch_def)
qed

section \<open>The Turn Loop: lemmas\<close>

subsection \<open>Arithmetic of the budget\<close>

lemma sint_dec: "0 <s (b::goint) \<Longrightarrow> sint (b - 1) = sint b - 1"
proof -
  assume "0 <s b"
  then have pos: "0 < sint b" by (simp add: word_sless_alt)
  have up: "sint b < 2 ^ 63" using sint_lt [of b] by simp
  have "sint (b - 1) = signed_take_bit 63 (sint b - 1)"
    by (simp add: sint_word_ariths)
  also have "\<dots> = sint b - 1"
    using pos up by (intro signed_take_bit_int_eq_self) auto
  finally show ?thesis .
qed

lemma dec_nonneg: "0 <s (b::goint) \<Longrightarrow> 0 \<le>s b - 1"
  using sint_dec [of b] by (simp add: word_sle_eq word_sless_alt)

lemma dec_unat: "0 <s (b::goint) \<Longrightarrow> Suc (unat (b - 1)) = unat b"
  by (metis Suc_diff_1 not_gr_zero signed.dual_order.irrefl unat_minus_one
      unsigned_eq_0_iff)

subsection \<open>One tool call, one turn\<close>

lemma handle_one_simps:
  "req (handle_one c tc st) = (req st)\<lparr>MaxToolCalls := MaxToolCalls (req st) - 1\<rparr>"
  "events (handle_one c tc st) = events st @ [Called tc]"
  "msgs (handle_one c tc st) = msgs st @
     [tool_message (case gollama_HandleToolCall c (Tools (req st)) tc of
               Inl err \<Rightarrow> ''Error: '' @ err | Inr r \<Rightarrow> r) (tc_ID tc)]"
  by (simp_all add: handle_one_def Let_def)

lemma invocations_handle_one:
  "tool_invocations (handle_one c tc st) = Suc (tool_invocations st)"
  by (simp add: tool_invocations_def handle_one_simps)

lemma invocations_sent [simp]:
  "tool_invocations (st\<lparr>events := events st @ [Sent rq]\<rparr>) = tool_invocations st"
  "tool_invocations (st\<lparr>events := events st @ [Sent rq], msgs := ms\<rparr>) = tool_invocations st"
  by (simp_all add: tool_invocations_def)

text \<open>
  A turn either returns, having sent its request, or hands the tool calls of the
  response to the handler and goes round again.
\<close>

lemma turn_loop_step:
  "(\<exists>out. turn_loop (Suc n) c td th st =
       (Some out, st\<lparr>events := events st @ [Sent (glreq td th st)]\<rparr>)) \<or>
   (\<exists>mm rest. ChatCompletion c (glreq td th st) = Inr (mm # rest) \<and> ToolCalls mm \<noteq> [] \<and>
       turn_loop (Suc n) c td th st =
         turn_loop n c td th
           (handle_tool_calls c (ToolCalls mm)
              (st\<lparr>events := events st @ [Sent (glreq td th st)], msgs := msgs st @ [mm]\<rparr>)))"
  by (auto simp add: Let_def split: sum.splits list.splits)

subsection \<open>The budget and the calls made\<close>

lemma handle_tool_calls_req:
  "req (handle_tool_calls c tcs st) =
     (req st)\<lparr>MaxToolCalls := MaxToolCalls (req st)
        - of_nat (tool_invocations (handle_tool_calls c tcs st) - tool_invocations st)\<rparr>
   \<and> tool_invocations st \<le> tool_invocations (handle_tool_calls c tcs st)"
proof (induction tcs arbitrary: st)
  case Nil
  show ?case by simp
next
  case (Cons tc tcs)
  let ?s1 = "handle_one c tc st"
  show ?case
  proof (cases "MaxToolCalls (req ?s1) \<le>s 0")
    case True
    then show ?thesis
      by (simp add: Let_def invocations_handle_one handle_one_simps)
  next
    case False
    have ih: "req (handle_tool_calls c tcs ?s1) =
       (req ?s1)\<lparr>MaxToolCalls := MaxToolCalls (req ?s1)
        - of_nat (tool_invocations (handle_tool_calls c tcs ?s1) - tool_invocations ?s1)\<rparr>"
      and mono: "tool_invocations ?s1 \<le> tool_invocations (handle_tool_calls c tcs ?s1)"
      using Cons.IH [of ?s1] by simp_all
    obtain k where
      k: "tool_invocations (handle_tool_calls c tcs ?s1) = Suc (tool_invocations st) + k"
      using mono by (metis invocations_handle_one le_Suc_ex)
    show ?thesis
      using False ih k
      by (simp add: Let_def invocations_handle_one handle_one_simps)
  qed
qed

lemma turn_loop_req:
  "req (snd (turn_loop n c td th st)) =
     (req st)\<lparr>MaxToolCalls := MaxToolCalls (req st)
        - of_nat (tool_invocations (snd (turn_loop n c td th st)) - tool_invocations st)\<rparr>
   \<and> tool_invocations st \<le> tool_invocations (snd (turn_loop n c td th st))"
proof (induction n arbitrary: st)
  case 0
  show ?case by simp
next
  case (Suc n)
  let ?rq = "glreq td th st"
  consider (stop) out where "turn_loop (Suc n) c td th st =
       (Some out, st\<lparr>events := events st @ [Sent ?rq]\<rparr>)"
    | (go) mm where "turn_loop (Suc n) c td th st =
         turn_loop n c td th
           (handle_tool_calls c (ToolCalls mm)
              (st\<lparr>events := events st @ [Sent ?rq], msgs := msgs st @ [mm]\<rparr>))"
    using turn_loop_step [of n c td th st] by blast
  then show ?case
  proof cases
    case stop
    then show ?thesis by simp
  next
    case go
    let ?s1 = "st\<lparr>events := events st @ [Sent ?rq], msgs := msgs st @ [mm]\<rparr>"
    let ?s2 = "handle_tool_calls c (ToolCalls mm) ?s1"
    let ?s3 = "snd (turn_loop n c td th ?s2)"
    have a: "req ?s2 = (req ?s1)\<lparr>MaxToolCalls := MaxToolCalls (req ?s1)
        - of_nat (tool_invocations ?s2 - tool_invocations ?s1)\<rparr>"
      and a': "tool_invocations ?s1 \<le> tool_invocations ?s2"
      using handle_tool_calls_req [of c "ToolCalls mm" ?s1] by simp_all
    have b: "req ?s3 = (req ?s2)\<lparr>MaxToolCalls := MaxToolCalls (req ?s2)
        - of_nat (tool_invocations ?s3 - tool_invocations ?s2)\<rparr>"
      and b': "tool_invocations ?s2 \<le> tool_invocations ?s3"
      using Suc.IH [of ?s2] by simp_all
    have i1: "tool_invocations ?s1 = tool_invocations st" by simp
    have r1: "req ?s1 = req st" by simp
    obtain j where j: "tool_invocations ?s2 = tool_invocations st + j"
      using a' i1 by (metis le_Suc_ex)
    obtain k where k: "tool_invocations ?s3 = tool_invocations ?s2 + k"
      using b' by (metis le_Suc_ex)
    have "req ?s3 = (req st)\<lparr>MaxToolCalls := MaxToolCalls (req st)
        - of_nat (tool_invocations ?s3 - tool_invocations st)\<rparr>"
      unfolding b unfolding a r1 i1 unfolding k j by simp
    moreover have "tool_invocations st \<le> tool_invocations ?s3"
      using j k by simp
    ultimately show ?thesis
      unfolding go by blast
  qed
qed

lemma handle_tool_calls_within_budget:
  "0 <s MaxToolCalls (req st) \<Longrightarrow>
   0 \<le>s MaxToolCalls (req (handle_tool_calls c tcs st)) \<and>
   tool_invocations (handle_tool_calls c tcs st)
     + unat (MaxToolCalls (req (handle_tool_calls c tcs st)))
   = tool_invocations st + unat (MaxToolCalls (req st))"
proof (induction tcs arbitrary: st)
  case Nil
  then show ?case by simp
next
  case (Cons tc tcs)
  let ?s1 = "handle_one c tc st"
  have b1: "MaxToolCalls (req ?s1) = MaxToolCalls (req st) - 1"
    by (simp add: handle_one_simps)
  have nonneg: "0 \<le>s MaxToolCalls (req ?s1)"
    using Cons.prems by (simp add: b1 dec_nonneg)
  have sum1: "tool_invocations ?s1 + unat (MaxToolCalls (req ?s1))
      = tool_invocations st + unat (MaxToolCalls (req st))"
    using dec_unat [OF Cons.prems] by (simp add: b1 invocations_handle_one)
  show ?case
  proof (cases "MaxToolCalls (req ?s1) \<le>s 0")
    case True
    then show ?thesis using nonneg sum1 by (simp add: Let_def)
  next
    case False
    then have "0 <s MaxToolCalls (req ?s1)" by simp
    from Cons.IH [OF this] show ?thesis using False sum1 by (simp add: Let_def)
  qed
qed

lemma turn_loop_within_budget:
  assumes honest: "\<And>rq mm rest. ChatCompletion c rq = Inr (mm # rest) \<Longrightarrow> o_Tools rq = []
            \<Longrightarrow> ToolCalls mm = []"
  shows "0 \<le>s MaxToolCalls (req st) \<Longrightarrow>
   0 \<le>s MaxToolCalls (req (snd (turn_loop n c td th st))) \<and>
   tool_invocations (snd (turn_loop n c td th st))
     + unat (MaxToolCalls (req (snd (turn_loop n c td th st))))
   = tool_invocations st + unat (MaxToolCalls (req st))"
proof (induction n arbitrary: st)
  case 0
  then show ?case by simp
next
  case (Suc n)
  let ?rq = "glreq td th st"
  consider (stop) out where "turn_loop (Suc n) c td th st =
       (Some out, st\<lparr>events := events st @ [Sent ?rq]\<rparr>)"
    | (go) mm rest where "ChatCompletion c ?rq = Inr (mm # rest)" "ToolCalls mm \<noteq> []"
       "turn_loop (Suc n) c td th st =
         turn_loop n c td th
           (handle_tool_calls c (ToolCalls mm)
              (st\<lparr>events := events st @ [Sent ?rq], msgs := msgs st @ [mm]\<rparr>))"
    using turn_loop_step [of n c td th st] by blast
  then show ?case
  proof cases
    case stop
    then show ?thesis using Suc.prems by simp
  next
    case go
    let ?s1 = "st\<lparr>events := events st @ [Sent ?rq], msgs := msgs st @ [mm]\<rparr>"
    let ?s2 = "handle_tool_calls c (ToolCalls mm) ?s1"
    have "o_Tools ?rq \<noteq> []"
      using honest [OF go(1)] go(2) by blast
    then have pos: "0 <s MaxToolCalls (req ?s1)"
      by (simp add: glreq_def split: if_splits)
    from handle_tool_calls_within_budget [OF pos, of c "ToolCalls mm"]
    have a: "0 \<le>s MaxToolCalls (req ?s2)"
      and b: "tool_invocations ?s2 + unat (MaxToolCalls (req ?s2))
               = tool_invocations st + unat (MaxToolCalls (req st))"
      by simp_all
    from Suc.IH [OF a] show ?thesis
      unfolding go(3) using b by simp
  qed
qed

lemma no_invocations_at_start:
  "tool_invocations \<lparr>req = r, msgs = ms, events = []\<rparr> = 0"
  by (simp add: tool_invocations_def)

section \<open>The Turn Loop: properties\<close>

text \<open>
  C1, as the code has it. Tools are declared to the gateway exactly while the remaining
  budget is positive. For a run that starts with a budget \<open>B \<ge> 0\<close> against a model that
  requests tool calls only in reply to a request that declared tools, the number of tool
  calls handed to the handler is at most \<open>B\<close>, however many calls a response asks for
  and however long the run is followed.
\<close>

theorem tool_budget_bound:
  assumes "0 \<le>s MaxToolCalls r"
    and "\<forall>rq mm rest. ChatCompletion c rq = Inr (mm # rest) \<and> o_Tools rq = []
            \<longrightarrow> ToolCalls mm = []"
  shows "tool_invocations (snd (ModelCallStructured n c T r)) \<le> unat (MaxToolCalls r)"
proof -
  have honest: "ToolCalls mm = []"
    if "ChatCompletion c rq = Inr (mm # rest)" and "o_Tools rq = []" for rq mm rest
    using assms(2) that by blast
  have "tool_invocations (snd (turn_loop n c td th \<lparr>req = r, msgs = ms, events = []\<rparr>))
      \<le> unat (MaxToolCalls r)" for td th ms
    using turn_loop_within_budget [of c "\<lparr>req = r, msgs = ms, events = []\<rparr>" n td th]
      honest assms(1)
    by (simp add: no_invocations_at_start)
  then show ?thesis
    by (simp add: ModelCallStructured_def Let_def no_invocations_at_start
        split: sum.split template_failure.split)
qed

theorem tool_budget_bound_witness:
  "0 \<le>s MaxToolCalls (request_with_budget 2) \<and>
   handled_calls (events (snd (ModelCallStructured 3 (with_model polite_model) shape_a
      (request_with_budget 2)))) =
     [call_tool ''call-1'' ''clock'', call_tool ''call-2'' ''clock''] \<and>
   tool_invocations (snd (ModelCallStructured 3 (with_model polite_model) shape_a
      (request_with_budget 2))) \<le> unat (MaxToolCalls (request_with_budget 2))"
proof -
  have h1: "0 \<le>s MaxToolCalls (request_with_budget 2)"
    by code_simp
  have h2: "\<forall>rq mm rest.
      ChatCompletion (with_model polite_model) rq = Inr (mm # rest) \<and> o_Tools rq = []
        \<longrightarrow> ToolCalls mm = []"
    by (simp add: with_model_def polite_model_def answers_def)
  have calls: "handled_calls (events (snd (ModelCallStructured 3 (with_model polite_model)
      shape_a (request_with_budget 2)))) =
     [call_tool ''call-1'' ''clock'', call_tool ''call-2'' ''clock'']"
    by code_simp
  show ?thesis
    using h1 calls tool_budget_bound [OF h1 h2, of 3 shape_a] by simp
qed

text \<open>
  The claim as the specification states it fails: with a budget of zero, a model that
  asks for a tool call all the same has that call handled.
\<close>

theorem tool_budget_counterexample:
  "MaxToolCalls (request_with_budget 0) = 0 \<and>
   handled_calls (events (snd (ModelCallStructured 2 (with_model insistent_model) shape_a
      (request_with_budget 0)))) = [call_tool ''call-1'' ''clock''] \<and>
   \<not> tool_invocations (snd (ModelCallStructured 2 (with_model insistent_model) shape_a
      (request_with_budget 0))) \<le> unat (MaxToolCalls (request_with_budget 0))"
  by code_simp

text \<open>
  C10. The request the caller passed is written by the run: when the run returns (or
  at any turn up to which it is followed) the request is the original one but for
  \<^verbatim>\<open>MaxToolCalls\<close>, which has gone down by one for every tool call handed to the
  handler, in 64-bit arithmetic. It can end below zero: started at zero against a model
  that asks for a call all the same, it ends at \<open>-1\<close>.
\<close>

theorem budget_written_to_request:
  "req (snd (ModelCallStructured n c T r)) =
     r\<lparr>MaxToolCalls := MaxToolCalls r
          - of_nat (tool_invocations (snd (ModelCallStructured n c T r)))\<rparr> \<and>
   MaxToolCalls (request_with_budget 0) = 0 \<and>
   MaxToolCalls (req (snd (ModelCallStructured 2 (with_model insistent_model) shape_a
      (request_with_budget 0)))) = - 1 \<and>
   (- 1 :: goint) <s 0"
proof -
  have general: "req (snd (ModelCallStructured n c T r)) =
     r\<lparr>MaxToolCalls := MaxToolCalls r
          - of_nat (tool_invocations (snd (ModelCallStructured n c T r)))\<rparr>"
    using turn_loop_req [of n c "map GollamaToolDef (Tools r)" _
        "\<lparr>req = r, msgs = seed_messages r @ [user_message r content], events = []\<rparr>"
        for content]
    by (simp add: ModelCallStructured_def Let_def no_invocations_at_start
        split: sum.split template_failure.split)
  have start: "MaxToolCalls (request_with_budget 0) = 0"
    by (simp add: request_with_budget_def)
  have run: "MaxToolCalls (req (snd (ModelCallStructured 2 (with_model insistent_model)
      shape_a (request_with_budget 0)))) = - 1"
    by code_simp
  show ?thesis
    using general start run by simp
qed

theorem budget_written_to_request_witness:
  "tool_invocations (snd (ModelCallStructured 3 (with_model polite_model) shape_a
      (request_with_budget 2))) = 2 \<and>
   req (snd (ModelCallStructured 3 (with_model polite_model) shape_a
      (request_with_budget 2))) = request_with_budget 0"
proof -
  have n: "tool_invocations (snd (ModelCallStructured 3 (with_model polite_model) shape_a
      (request_with_budget 2))) = 2"
    by code_simp
  have e: "(request_with_budget 2)\<lparr>MaxToolCalls := MaxToolCalls (request_with_budget 2) - 2\<rparr>
      = request_with_budget 0"
    by (simp add: request_with_budget_def)
  have "req (snd (ModelCallStructured 3 (with_model polite_model) shape_a
      (request_with_budget 2))) =
      (request_with_budget 2)\<lparr>MaxToolCalls := MaxToolCalls (request_with_budget 2) - 2\<rparr>"
    using budget_written_to_request [of 3 "with_model polite_model" shape_a
        "request_with_budget 2"]
    by (simp add: n)
  then show ?thesis
    using n e by simp
qed

subsection \<open>What a run sends and appends\<close>

lemma handle_tool_calls_trace:
  "\<exists>calls. prefix calls tcs \<and> (tcs \<noteq> [] \<longrightarrow> calls \<noteq> []) \<and>
     events (handle_tool_calls c tcs st) = events st @ map Called calls \<and>
     msgs (handle_tool_calls c tcs st) = msgs st @
       map (\<lambda>tc. tool_message
              (case gollama_HandleToolCall c (Tools (req st)) tc of
                 Inl err \<Rightarrow> ''Error: '' @ err | Inr r \<Rightarrow> r) (tc_ID tc)) calls \<and>
     Tools (req (handle_tool_calls c tcs st)) = Tools (req st)"
proof (induction tcs arbitrary: st)
  case Nil
  show ?case by simp
next
  case (Cons tc tcs)
  let ?s1 = "handle_one c tc st"
  show ?case
  proof (cases "MaxToolCalls (req ?s1) \<le>s 0")
    case True
    then show ?thesis
      by (intro exI [of _ "[tc]"]) (simp add: Let_def handle_one_simps)
  next
    case False
    from Cons.IH [of ?s1] obtain calls where
      p: "prefix calls tcs"
      and e: "events (handle_tool_calls c tcs ?s1) = events ?s1 @ map Called calls"
      and m: "msgs (handle_tool_calls c tcs ?s1) = msgs ?s1 @
       map (\<lambda>tc. tool_message
              (case gollama_HandleToolCall c (Tools (req ?s1)) tc of
                 Inl err \<Rightarrow> ''Error: '' @ err | Inr r \<Rightarrow> r) (tc_ID tc)) calls"
      and t: "Tools (req (handle_tool_calls c tcs ?s1)) = Tools (req ?s1)"
      by blast
    show ?thesis
      using False p e m t
      by (intro exI [of _ "tc # calls"]) (simp add: Let_def handle_one_simps)
  qed
qed

lemma turn_loop_events_grow:
  "\<exists>es. events (snd (turn_loop n c td th st)) = events st @ es"
proof (induction n arbitrary: st)
  case 0
  show ?case by simp
next
  case (Suc n)
  let ?rq = "glreq td th st"
  consider (stop) out where "turn_loop (Suc n) c td th st =
       (Some out, st\<lparr>events := events st @ [Sent ?rq]\<rparr>)"
    | (go) mm where "turn_loop (Suc n) c td th st =
         turn_loop n c td th
           (handle_tool_calls c (ToolCalls mm)
              (st\<lparr>events := events st @ [Sent ?rq], msgs := msgs st @ [mm]\<rparr>))"
    using turn_loop_step [of n c td th st] by blast
  then show ?case
  proof cases
    case stop
    then show ?thesis by simp
  next
    case go
    let ?s1 = "st\<lparr>events := events st @ [Sent ?rq], msgs := msgs st @ [mm]\<rparr>"
    let ?s2 = "handle_tool_calls c (ToolCalls mm) ?s1"
    obtain calls where "events ?s2 = events ?s1 @ map Called calls"
      using handle_tool_calls_trace [of "ToolCalls mm" c ?s1] by blast
    moreover obtain es where "events (snd (turn_loop n c td th ?s2)) = events ?s2 @ es"
      using Suc.IH [of ?s2] by blast
    ultimately show ?thesis
      unfolding go by simp
  qed
qed

lemma turn_loop_sends_first:
  "\<exists>es. events (snd (turn_loop (Suc n) c td th st)) = events st @ Sent (glreq td th st) # es"
proof -
  let ?rq = "glreq td th st"
  consider (stop) out where "turn_loop (Suc n) c td th st =
       (Some out, st\<lparr>events := events st @ [Sent ?rq]\<rparr>)"
    | (go) mm where "turn_loop (Suc n) c td th st =
         turn_loop n c td th
           (handle_tool_calls c (ToolCalls mm)
              (st\<lparr>events := events st @ [Sent ?rq], msgs := msgs st @ [mm]\<rparr>))"
    using turn_loop_step [of n c td th st] by blast
  then show ?thesis
  proof cases
    case stop
    then show ?thesis by simp
  next
    case go
    let ?s1 = "st\<lparr>events := events st @ [Sent ?rq], msgs := msgs st @ [mm]\<rparr>"
    let ?s2 = "handle_tool_calls c (ToolCalls mm) ?s1"
    obtain calls where "events ?s2 = events ?s1 @ map Called calls"
      using handle_tool_calls_trace [of "ToolCalls mm" c ?s1] by blast
    moreover obtain es where "events (snd (turn_loop n c td th ?s2)) = events ?s2 @ es"
      using turn_loop_events_grow [of n c td th ?s2] by blast
    ultimately show ?thesis
      unfolding go by simp
  qed
qed

lemma sent_requests_append:
  "sent_requests (xs @ ys) = sent_requests xs @ sent_requests ys"
  by (induction xs rule: sent_requests.induct) simp_all

lemma sent_requests_calls [simp]: "sent_requests (map Called calls) = []"
  by (induction calls) simp_all

lemma turn_loop_requests_extend:
  "\<forall>rq \<in> set (sent_requests (events (snd (turn_loop n c td th st)))).
     rq \<in> set (sent_requests (events st)) \<or>
     (prefix (msgs st) (o_Messages rq) \<and> o_System rq = System (req st))"
proof (induction n arbitrary: st)
  case 0
  show ?case by simp
next
  case (Suc n)
  let ?rq = "glreq td th st"
  have own: "o_Messages ?rq = msgs st \<and> o_System ?rq = System (req st)"
    by (simp add: glreq_def)
  consider (stop) out where "turn_loop (Suc n) c td th st =
       (Some out, st\<lparr>events := events st @ [Sent ?rq]\<rparr>)"
    | (go) mm where "turn_loop (Suc n) c td th st =
         turn_loop n c td th
           (handle_tool_calls c (ToolCalls mm)
              (st\<lparr>events := events st @ [Sent ?rq], msgs := msgs st @ [mm]\<rparr>))"
    using turn_loop_step [of n c td th st] by blast
  then show ?case
  proof cases
    case stop
    then show ?thesis using own by (auto simp add: sent_requests_append)
  next
    case go
    let ?s1 = "st\<lparr>events := events st @ [Sent ?rq], msgs := msgs st @ [mm]\<rparr>"
    let ?s2 = "handle_tool_calls c (ToolCalls mm) ?s1"
    obtain calls where
      e: "events ?s2 = events ?s1 @ map Called calls"
      and m: "\<exists>ms. msgs ?s2 = msgs ?s1 @ ms"
      using handle_tool_calls_trace [of "ToolCalls mm" c ?s1] by blast
    have sys: "System (req ?s2) = System (req st)"
      using handle_tool_calls_req [of c "ToolCalls mm" ?s1] by simp
    have sent: "sent_requests (events ?s2) = sent_requests (events st) @ [?rq]"
      by (simp add: e sent_requests_append)
    have pre: "prefix (msgs st) (msgs ?s2)"
      using m by auto
    show ?thesis
      unfolding go
    proof
      fix rq
      assume "rq \<in> set (sent_requests (events (snd (turn_loop n c td th ?s2))))"
      with Suc.IH [of ?s2]
      have "rq \<in> set (sent_requests (events ?s2)) \<or>
            (prefix (msgs ?s2) (o_Messages rq) \<and> o_System rq = System (req ?s2))"
        by blast
      then show "rq \<in> set (sent_requests (events st)) \<or>
            (prefix (msgs st) (o_Messages rq) \<and> o_System rq = System (req st))"
        using sent own pre sys by (auto intro: prefix_order.trans)
    qed
  qed
qed



text \<open>
  C6, what the code does. When the request carries a non-empty
  \<^verbatim>\<open>MessagePrefill\<close> and the prompt renders, the messages of the first request sent to
  the gateway are the prefilled history followed by the rendered user message, with no
  system message put in by the engine, and the messages of every request of the run
  begin with these. So far the prefill overrides the system instructions, as the comment
  on \<^verbatim>\<open>MessagePrefill\<close> says. But \<^verbatim>\<open>glreq\<close> is built with
  \<^verbatim>\<open>System: req.System\<close> whether or not there is a prefill: every request of the run
  still hands the system instructions to the gateway, in its \<^verbatim>\<open>System\<close> option.
\<close>

theorem prefill_seeds_conversation:
  assumes "MessagePrefill r \<noteq> []"
    and "renderOutputSpec T = Inr ospec"
    and "render_prompt (Template c) r ospec = Inr content"
  shows "(\<exists>rq es. events (snd (ModelCallStructured (Suc n) c T r)) = Sent rq # es \<and>
            o_Messages rq = MessagePrefill r @ [user_message r content] \<and>
            o_System rq = System r) \<and>
         (\<forall>rq \<in> set (sent_requests (events (snd (ModelCallStructured n c T r)))).
            prefix (MessagePrefill r @ [user_message r content]) (o_Messages rq) \<and>
            o_System rq = System r)"
proof -
  let ?td = "map GollamaToolDef (Tools r)"
  let ?th = "case Think r of None \<Rightarrow> True | Some b \<Rightarrow> b"
  let ?s0 = "\<lparr>req = r, msgs = MessagePrefill r @ [user_message r content], events = []\<rparr>"
  have run: "ModelCallStructured k c T r = turn_loop k c ?td ?th ?s0" for k
    using assms by (simp add: ModelCallStructured_def seed_messages_def)
  obtain es where
    "events (snd (turn_loop (Suc n) c ?td ?th ?s0)) = Sent (glreq ?td ?th ?s0) # es"
    using turn_loop_sends_first [of n c ?td ?th ?s0] by auto
  moreover have "o_Messages (glreq ?td ?th ?s0) = MessagePrefill r @ [user_message r content]
      \<and> o_System (glreq ?td ?th ?s0) = System r"
    by (simp add: glreq_def)
  moreover have "\<forall>rq \<in> set (sent_requests (events (snd (turn_loop n c ?td ?th ?s0)))).
            prefix (MessagePrefill r @ [user_message r content]) (o_Messages rq) \<and>
            o_System rq = System r"
    using turn_loop_requests_extend [of n c ?td ?th ?s0] by simp
  ultimately show ?thesis
    unfolding run by blast
qed

theorem prefill_seeds_conversation_witness:
  "(\<exists>rq es.
      events (snd (ModelCallStructured 1 (with_model polite_model) shape_a prefilled_request))
        = Sent rq # es \<and>
      map Role (o_Messages rq) = [''user'', ''assistant'', ''user''] \<and>
      take 2 (o_Messages rq) = MessagePrefill prefilled_request \<and>
      o_System rq = ''Answer in French.'') \<and>
   MessagePrefill prefilled_request \<noteq> [] \<and>
   map o_System (sent_requests (events (snd
      (ModelCallStructured 1 (with_model polite_model) shape_a prefilled_request))))
     = [''Answer in French.'']"
proof -
  let ?content = "render_default
       \<lparr>OutputTemplate = the (DescribeType shape_a), sp_Prompt = Prompt prefilled_request,
        sp_Context = Context prefilled_request,
        sp_MaxToolCalls = MaxToolCalls prefilled_request\<rparr>"
  have h1: "MessagePrefill prefilled_request \<noteq> []"
    by (simp add: prefilled_request_def)
  have h2: "renderOutputSpec shape_a = Inr (the (DescribeType shape_a))"
    by (simp add: renderOutputSpec_def shape_a_def)
  have h3: "render_prompt (Template (with_model polite_model)) prefilled_request
      (the (DescribeType shape_a)) = Inr ?content"
    by (simp add: render_prompt_def getStructuredCallPrompt_def execute_template_def
        prefilled_request_def)
  from prefill_seeds_conversation [OF h1 h2 h3, of 0]
  obtain rq es where
    e: "events (snd (ModelCallStructured (Suc 0) (with_model polite_model) shape_a
          prefilled_request)) = Sent rq # es"
    and m: "o_Messages rq = MessagePrefill prefilled_request
          @ [user_message prefilled_request ?content]"
    and sys: "o_System rq = System prefilled_request"
    by blast
  have "map Role (o_Messages rq) = [''user'', ''assistant'', ''user''] \<and>
        take 2 (o_Messages rq) = MessagePrefill prefilled_request"
    unfolding m by (simp add: prefilled_request_def user_message_def)
  moreover have "o_System rq = ''Answer in French.''"
    using sys by (simp add: prefilled_request_def)
  moreover have "map o_System (sent_requests (events (snd
      (ModelCallStructured 1 (with_model polite_model) shape_a prefilled_request))))
     = [''Answer in French.'']"
    by code_simp
  ultimately show ?thesis
    using e h1 by auto
qed

section \<open>Output-shape description and prompt: properties\<close>

lemma occurrences_here: "1 \<le> occurrences d (d @ b)"
proof (cases "d @ b")
  case Nil
  then show ?thesis by simp
next
  case (Cons ch s)
  have "HasPrefix (d @ b) d" by (simp add: HasPrefix_def)
  then show ?thesis unfolding Cons by simp
qed

lemma occurrences_ge1: "1 \<le> occurrences d (a @ d @ b)"
proof (induction a)
  case Nil
  show ?case using occurrences_here [of d b] by simp
next
  case (Cons ch a)
  then show ?case by (simp add: trans_le_add2)
qed

lemma render_prompt_default:
  "getStructuredCallPrompt r = defaultStructuredCallPrompt \<Longrightarrow>
   render_prompt eng r d =
     Inr (template_head @ d @ template_tail (Prompt r) (Context r) (MaxToolCalls r))"
  by (simp add: render_prompt_def execute_template_def render_default_def)

text \<open>
  C8, as the code has it. For a target type with a description of its own,
  \<^verbatim>\<open>renderOutputSpec\<close> returns that description, and the prompt rendered from the
  built-in template is the fixed head of the template, the description as it is, and a
  tail made of the task prompt, the budget line and the context: the description is in
  the prompt, put there once by the template. A type without the capability gets the
  serialisation of its zero value, and when that fails \<^verbatim>\<open>ModelCallStructured\<close>
  returns the error to the caller before anything is sent.
\<close>

theorem description_rendered_verbatim:
  "(DescribeType T = Some d \<longrightarrow>
      renderOutputSpec T = Inr d \<and>
      (getStructuredCallPrompt r = defaultStructuredCallPrompt \<longrightarrow>
         render_prompt eng r d =
           Inr (template_head @ d @ template_tail (Prompt r) (Context r) (MaxToolCalls r)) \<and>
         1 \<le> occurrences d
           (template_head @ d @ template_tail (Prompt r) (Context r) (MaxToolCalls r)))) \<and>
   (DescribeType T = None \<longrightarrow>
      renderOutputSpec T = MarshalZero T \<and>
      (\<forall>err. MarshalZero T = Inl err \<longrightarrow>
         ModelCallStructured n c T r =
           (Some (Inl (OutputSpecError err)), \<lparr>req = r, msgs = [], events = []\<rparr>)))"
proof (intro conjI impI allI)
  assume "DescribeType T = Some d"
  then show "renderOutputSpec T = Inr d"
    by (simp add: renderOutputSpec_def)
next
  assume "getStructuredCallPrompt r = defaultStructuredCallPrompt"
  then show "render_prompt eng r d =
      Inr (template_head @ d @ template_tail (Prompt r) (Context r) (MaxToolCalls r))"
    by (rule render_prompt_default)
next
  show "1 \<le> occurrences d
      (template_head @ d @ template_tail (Prompt r) (Context r) (MaxToolCalls r))"
    by (rule occurrences_ge1)
next
  assume "DescribeType T = None"
  then show "renderOutputSpec T = MarshalZero T"
    by (simp add: renderOutputSpec_def)
next
  fix err
  assume "DescribeType T = None" and "MarshalZero T = Inl err"
  then show "ModelCallStructured n c T r =
      (Some (Inl (OutputSpecError err)), \<lparr>req = r, msgs = [], events = []\<rparr>)"
    by (simp add: ModelCallStructured_def renderOutputSpec_def)
qed

theorem description_rendered_verbatim_witness:
  \<open>renderOutputSpec shape_a = Inr ''{"a": int}'' \<and>
   render_prompt (\<lambda>t p. Inl (ParseFailed ''unexpected EOF'')) (request_with_budget 0)
       ''{"a": int}'' =
     Inr (template_head @ ''{"a": int}'' @ template_tail ''Give a.'' ''none'' 0) \<and>
   ModelCallStructured 1 (with_model polite_model) shape_chan (request_with_budget 0) =
     (Some (Inl (OutputSpecError ''json: unsupported type: chan int'')),
      \<lparr>req = request_with_budget 0, msgs = [], events = []\<rparr>)\<close>
proof -
  have d: \<open>DescribeType shape_a = Some ''{"a": int}''\<close>
    by (simp add: shape_a_def)
  have t: "getStructuredCallPrompt (request_with_budget 0) = defaultStructuredCallPrompt"
    by (simp add: getStructuredCallPrompt_def request_with_budget_def)
  have f: "Prompt (request_with_budget 0) = ''Give a.'' \<and>
           Context (request_with_budget 0) = ''none'' \<and>
           MaxToolCalls (request_with_budget 0) = 0"
    by (simp add: request_with_budget_def)
  have n: "DescribeType shape_chan = None \<and>
           MarshalZero shape_chan = Inl ''json: unsupported type: chan int''"
    by (simp add: shape_chan_def)
  from description_rendered_verbatim
      [of shape_a _ "request_with_budget 0" "\<lambda>t p. Inl (ParseFailed ''unexpected EOF'')"]
    d t f
  have one: \<open>renderOutputSpec shape_a = Inr ''{"a": int}'' \<and>
    render_prompt (\<lambda>t p. Inl (ParseFailed ''unexpected EOF'')) (request_with_budget 0)
       ''{"a": int}'' =
     Inr (template_head @ ''{"a": int}'' @ template_tail ''Give a.'' ''none'' 0)\<close>
    by simp
  from description_rendered_verbatim
      [of shape_chan _ _ _ 1 "with_model polite_model"] n
  have two: "ModelCallStructured 1 (with_model polite_model) shape_chan r =
     (Some (Inl (OutputSpecError ''json: unsupported type: chan int'')),
      \<lparr>req = r, msgs = [], events = []\<rparr>)" for r
    by simp
  show ?thesis
    using one two by simp
qed

text \<open>
  The claim as the specification states it fails: the description need not be in the
  prompt exactly once. A description that reads "json" is there twice, since the text
  of the template has the word too.
\<close>

theorem description_twice_counterexample:
  "DescribeType shape_json = Some ''json'' \<and>
   renderOutputSpec shape_json = Inr ''json'' \<and>
   getStructuredCallPrompt (request_with_budget 0) = defaultStructuredCallPrompt \<and>
   map_sum id (occurrences ''json'')
     (render_prompt (Template (with_model polite_model)) (request_with_budget 0) ''json'')
     = Inr 2"
  by code_simp

section \<open>The tool registry: properties\<close>

lemma lookup_tool_append:
  "lookup_tool (xs @ ys) name =
     (case lookup_tool xs name of Some t \<Rightarrow> Some t | None \<Rightarrow> lookup_tool ys name)"
  by (induction xs) simp_all

lemma lookup_tool_first:
  "\<forall>u \<in> set before. t_Name u \<noteq> name \<Longrightarrow> t_Name t = name \<Longrightarrow>
   lookup_tool (before @ t # after) name = Some t"
  by (induction before) simp_all

text \<open>
  C7, as the code has it. The scan stops at the first tool of the list whose name is
  the requested one: whatever comes later in the list, that tool's function is the one
  invoked. In the merged list a tool of the client with that name comes before every
  tool of the request, and is the one found.
\<close>

theorem first_tool_with_name_is_called:
  "lookup_tool (merged_tools cl keys req_tools) name =
     (case lookup_tool (List.map_filter (c_Tools cl) keys) name of
        Some t \<Rightarrow> Some t
      | None \<Rightarrow> lookup_tool req_tools name) \<and>
   ((\<forall>u \<in> set before. t_Name u \<noteq> fn_Name call) \<and> t_Name t = fn_Name call \<longrightarrow>
      HandleToolCall unmarshal_args (before @ t # after) call =
        (case unmarshal_args (fn_Arguments call) of
           Inl err \<Rightarrow> Inl (InvalidArguments err)
         | Inr obj \<Rightarrow>
             (case Func t obj of
                Inl err \<Rightarrow> Inl (ToolInvocationFailed err)
              | Inr resp \<Rightarrow> Inr resp)))"
proof (intro conjI impI)
  show "lookup_tool (merged_tools cl keys req_tools) name =
     (case lookup_tool (List.map_filter (c_Tools cl) keys) name of
        Some t \<Rightarrow> Some t
      | None \<Rightarrow> lookup_tool req_tools name)"
    by (simp add: merged_tools_def lookup_tool_append)
next
  assume "(\<forall>u \<in> set before. t_Name u \<noteq> fn_Name call) \<and> t_Name t = fn_Name call"
  then have "lookup_tool (before @ t # after) (fn_Name call) = Some t"
    by (simp add: lookup_tool_first)
  then show "HandleToolCall unmarshal_args (before @ t # after) call =
        (case unmarshal_args (fn_Arguments call) of
           Inl err \<Rightarrow> Inl (InvalidArguments err)
         | Inr obj \<Rightarrow>
             (case Func t obj of
                Inl err \<Rightarrow> Inl (ToolInvocationFailed err)
              | Inr resp \<Rightarrow> Inr resp))"
    by (simp add: HandleToolCall_def)
qed

theorem first_tool_with_name_is_called_witness:
  "HandleToolCall (\<lambda>s. Inr []) ([] @ clock_tool # [late_clock]) (call_tool ''call-1'' ''clock'')
     = Inr ''12:00''"
proof -
  have h: "(\<forall>u \<in> set []. t_Name u \<noteq> fn_Name (call_tool ''call-1'' ''clock'')) \<and>
           t_Name clock_tool = fn_Name (call_tool ''call-1'' ''clock'')"
    by (simp add: clock_tool_def call_tool_def)
  from first_tool_with_name_is_called
      [of _ _ _ _ "[]" "call_tool ''call-1'' ''clock''" clock_tool "\<lambda>s. Inr []" "[late_clock]"] h
  have "HandleToolCall (\<lambda>s. Inr []) ([] @ clock_tool # [late_clock])
          (call_tool ''call-1'' ''clock'') =
        (case Func clock_tool [] of
           Inl err \<Rightarrow> Inl (ToolInvocationFailed err)
         | Inr resp \<Rightarrow> Inr resp)"
    by simp
  then show ?thesis
    by (simp add: clock_tool_def)
qed

text \<open>
  The claim as the specification states it fails: with a clock registered in the
  client and another tool of the same name in the request, the merged list has both
  and the call goes to the first, not to the last.
\<close>

theorem last_tool_counterexample:
  "map t_Name (merged_tools (AddTool NewClient clock_tool) [''clock''] [late_clock])
     = [''clock'', ''clock''] \<and>
   Func (last (merged_tools (AddTool NewClient clock_tool) [''clock''] [late_clock])) []
     = Inr ''18:30'' \<and>
   HandleToolCall (\<lambda>s. Inr [])
     (merged_tools (AddTool NewClient clock_tool) [''clock''] [late_clock])
     (call_tool ''call-1'' ''clock'') = Inr ''12:00''"
  by (simp add: merged_tools_def AddTool_def NewClient_def clock_tool_def late_clock_def
      call_tool_def HandleToolCall_def List.map_filter_simps)

section \<open>A response without a payload\<close>

lemma Split_nl_nonempty: "Split_nl s \<noteq> []"
  by (induction s) (simp_all split: list.split)

lemma first_line_brace:
  "HasPrefix text ''{'' \<Longrightarrow> HasPrefix (hd (Split_nl text)) ''{''"
proof (cases "text")
  case Nil
  then show "HasPrefix text ''{'' \<Longrightarrow> ?thesis" by (simp add: HasPrefix_def)
next
  case (Cons ch cs)
  assume "HasPrefix text ''{''"
  then have ch: "ch = CHR ''{''" using Cons by (simp add: HasPrefix_def)
  obtain l ls where "Split_nl cs = l # ls"
    using Split_nl_nonempty [of cs] by (cases "Split_nl cs") auto
  then show ?thesis
    using Cons ch by (simp add: HasPrefix_def nl_def)
qed

lemma scan_lines_none:
  "\<forall>l \<in> set ls. \<not> HasPrefix l ''{'' \<Longrightarrow> scan_lines pre ls = None"
  by (induction ls arbitrary: pre) simp_all

lemma extract_no_payload:
  assumes "\<forall>l \<in> set (Split_nl text). \<not> HasPrefix l ''{''"
  shows "extractJSONAndComment text = (text, [])"
proof -
  have "hd (Split_nl text) \<in> set (Split_nl text)"
    using Split_nl_nonempty by simp
  then have "\<not> HasPrefix text ''{''"
    using assms first_line_brace by blast
  then show ?thesis
    using scan_lines_none [OF assms] by (simp add: extractJSONAndComment_def)
qed

text \<open>
  C3, what the code does. When no line of the cleaned response begins with the opening
  brace, the extractor returns the whole text as comment and an empty payload. In batch
  reconciliation the entry then gets the error "no_json_output" of its own. In the Turn
  Loop the empty payload is handed to the decoder all the same, and what the caller
  gets is the decoder's error on empty input inside the same "failed to parse JSON
  output" error as for any malformed payload (or a result, should the decoder accept
  empty input): there is no condition of its own for the missing payload.
\<close>

theorem missing_payload_paths:
  assumes "\<forall>l \<in> set (Split_nl (cleanJsonOutput text)). \<not> HasPrefix l ''{''"
  shows "extractJSONAndComment (cleanJsonOutput text) = (cleanJsonOutput text, []) \<and>
     (Content mm = text \<longrightarrow>
        finish c resp mm ms =
          (case Unmarshal c [] of
             Inl err \<Rightarrow> Inl (ParseOutputError err (cleanJsonOutput text))
           | Inr outv \<Rightarrow>
               Inr \<lparr>Output = outv, ModelComment = cleanJsonOutput text,
                    RawResponse = resp, InputMessages = ms\<rparr>)) \<and>
     (i_Type item = ''succeeded'' \<and> i_Message item = Some content \<and> content \<noteq> [] \<and>
      content_text [] content = text \<longrightarrow>
        Error (parse_item unmarshal item) =
          Some \<lparr>e_Type = ''no_json_output'',
                e_Message = ''no JSON output found in response''\<rparr> \<and>
        r_ModelComment (parse_item unmarshal item) = cleanJsonOutput text \<and>
        r_Output (parse_item unmarshal item) = None)"
proof -
  have x: "extractJSONAndComment (cleanJsonOutput text) = (cleanJsonOutput text, [])"
    using assms by (rule extract_no_payload)
  show ?thesis
    using x
    by (auto simp add: finish_def parse_item_def succeeded_item_def Let_def
        split: sum.split)
qed

theorem missing_payload_paths_witness:
  \<open>fst (ModelCallStructured 1 (with_model (\<lambda>rq. Inr [answers ''hello'']))
          shape_a (request_with_budget 0)) =
     Some (Inl (ParseOutputError ''unexpected end of JSON input'' ''hello'')) \<and>
   fst (ModelCallStructured 1 (with_model (\<lambda>rq. Inr [answers ''{"a":'']))
          shape_a (request_with_budget 0)) =
     Some (Inl (ParseOutputError ''unexpected end of JSON input'' ''{"a":'')) \<and>
   finish (with_model (\<lambda>rq. Inr [answers ''hello''])) [answers ''hello'']
       (answers ''hello'') [] =
     Inl (ParseOutputError ''unexpected end of JSON input'' ''hello'') \<and>
   map_option e_Type (Error (parse_item decode_a (batch_items ! 2))) = Some ''no_json_output''\<close>
proof -
  have clean: "cleanJsonOutput ''hello'' = ''hello''"
    by code_simp
  have h: "\<forall>l \<in> set (Split_nl (cleanJsonOutput ''hello'')). \<not> HasPrefix l ''{''"
    by code_simp
  have item: "i_Type (batch_items ! 2) = ''succeeded'' \<and>
      i_Message (batch_items ! 2) = Some [\<lparr>b_Type = ''text'', b_Text = ''hello''\<rparr>] \<and>
      [\<lparr>b_Type = ''text'', b_Text = ''hello''\<rparr>] \<noteq> [] \<and>
      content_text [] [\<lparr>b_Type = ''text'', b_Text = ''hello''\<rparr>] = ''hello''"
    by (simp add: batch_items_def)
  have dec: "Unmarshal (with_model (\<lambda>rq. Inr [answers ''hello''])) []
      = Inl ''unexpected end of JSON input''"
    by (simp add: with_model_def decode_a_def)
  have cont: "Content (answers ''hello'') = ''hello''"
    by (simp add: answers_def)
  note inst = missing_payload_paths [OF h,
      of "answers ''hello''" "with_model (\<lambda>rq. Inr [answers ''hello''])"
         "[answers ''hello'']" "[]" "batch_items ! 2"
         "[\<lparr>b_Type = ''text'', b_Text = ''hello''\<rparr>]" decode_a]
  have loop: "finish (with_model (\<lambda>rq. Inr [answers ''hello''])) [answers ''hello'']
       (answers ''hello'') [] =
     Inl (ParseOutputError ''unexpected end of JSON input'' ''hello'')"
    using inst cont dec clean by simp
  have batch: "map_option e_Type (Error (parse_item decode_a (batch_items ! 2)))
      = Some ''no_json_output''"
    using inst item by simp
  have run1: \<open>fst (ModelCallStructured 1 (with_model (\<lambda>rq. Inr [answers ''hello'']))
          shape_a (request_with_budget 0)) =
     Some (Inl (ParseOutputError ''unexpected end of JSON input'' ''hello''))\<close>
    by code_simp
  have run2: \<open>fst (ModelCallStructured 1 (with_model (\<lambda>rq. Inr [answers ''{"a":'']))
          shape_a (request_with_budget 0)) =
     Some (Inl (ParseOutputError ''unexpected end of JSON input'' ''{"a":''))\<close>
    by code_simp
  show ?thesis
    using loop batch run1 run2 by simp
qed

end
